theory Spec2Isabelle
  imports Complex_Main
begin

section \<open>Problem data store\<close>

text \<open>
  The scalar type \<open>T\<close> of the solver is modelled by \<^typ>\<open>real\<close>, a dense Eigen vector by
  a \<^typ>\<open>real list\<close>, a matrix by the list of its rows.  Sizes (\<open>isize\<close>) that the code
  only ever counts upwards from \<open>0\<close> are natural numbers.
\<close>

type_synonym vec = "real list"
type_synonym mat = "real list list"

definition PIQP_INF :: real where
  "PIQP_INF = 10 ^ 30"

record data =
  data_n :: nat
  data_p :: nat
  data_m :: nat
  n_lb :: nat
  n_ub :: nat
  P_utri :: mat
  AT :: mat
  GT :: mat
  data_c :: vec
  data_b :: vec
  data_h :: vec
  x_lb_n :: vec
  x_ub :: vec
  x_lb_idx :: "nat list"
  x_ub_idx :: "nat list"

text \<open>
  One pass of the loop of \<open>setup_lb_data\<close>: the loop variables are the running count
  \<open>n_lb\<close>, the write position \<open>i_lb\<close> and the two arrays being filled.
\<close>

definition lb_body :: "vec \<Rightarrow> nat \<Rightarrow> nat \<times> nat \<times> vec \<times> nat list \<Rightarrow> nat \<times> nat \<times> vec \<times> nat list" where
  "lb_body xlb i acc =
     (case acc of (cnt, i_lb, vals, idx) \<Rightarrow>
        if xlb ! i > - PIQP_INF
        then (cnt + 1, i_lb + 1, vals[i_lb := - (xlb ! i)], idx[i_lb := i])
        else (cnt, i_lb, vals, idx))"

definition setup_lb_data :: "vec option \<Rightarrow> data \<Rightarrow> data" where
  "setup_lb_data xlb_opt d =
     (case xlb_opt of
        None \<Rightarrow> d\<lparr>n_lb := 0\<rparr>
      | Some xlb \<Rightarrow>
          (case fold (lb_body xlb) [0..<data_n d] (0, 0, x_lb_n d, x_lb_idx d) of
             (cnt, i_lb, vals, idx) \<Rightarrow> d\<lparr>n_lb := cnt, x_lb_n := vals, x_lb_idx := idx\<rparr>))"

definition ub_body :: "vec \<Rightarrow> nat \<Rightarrow> nat \<times> nat \<times> vec \<times> nat list \<Rightarrow> nat \<times> nat \<times> vec \<times> nat list" where
  "ub_body xub i acc =
     (case acc of (cnt, i_ub, vals, idx) \<Rightarrow>
        if xub ! i < PIQP_INF
        then (cnt + 1, i_ub + 1, vals[i_ub := xub ! i], idx[i_ub := i])
        else (cnt, i_ub, vals, idx))"

definition setup_ub_data :: "vec option \<Rightarrow> data \<Rightarrow> data" where
  "setup_ub_data xub_opt d =
     (case xub_opt of
        None \<Rightarrow> d\<lparr>n_ub := 0\<rparr>
      | Some xub \<Rightarrow>
          (case fold (ub_body xub) [0..<data_n d] (0, 0, x_ub d, x_ub_idx d) of
             (cnt, i_ub, vals, idx) \<Rightarrow> d\<lparr>n_ub := cnt, x_ub := vals, x_ub_idx := idx\<rparr>))"

section \<open>Settings, results and workspace\<close>

text \<open>
  The statuses a solve can report.
\<close>

datatype Status = PIQP_SOLVED | PIQP_MAX_ITER_REACHED | PIQP_PRIMAL_INFEASIBLE
  | PIQP_DUAL_INFEASIBLE | PIQP_NUMERICS | PIQP_UNSOLVED | PIQP_INVALID_SETTINGS

record settings =
  rho_init :: real
  delta_init :: real
  feas_tol_abs :: real
  feas_tol_rel :: real
  dual_tol :: real
  reg_lower_limit :: real
  max_iter :: int
  max_factor_retires :: int
  preconditioner_iter :: int
  tau :: real

text \<open>
  The eight blocks of a right-hand side or of a solution of the Newton system.
\<close>

record vec8 =
  blk_x :: vec
  blk_y :: vec
  blk_z :: vec
  blk_z_lb :: vec
  blk_z_ub :: vec
  blk_s :: vec
  blk_s_lb :: vec
  blk_s_ub :: vec

text \<open>
  The solver object.  The members \<open>m_result.x\<close>, \<open>m_result.info.rho\<close>, ... of the class are
  the fields \<open>res_x\<close>, \<open>rho\<close>, ...; the counters of \<open>m_result.info\<close> are integers: each is
  increased at most once per pass of a loop that is bounded by a setting of the same type,
  so none of them can wrap around.  The state of the KKT operator and of the preconditioner
  are type parameters.
\<close>

record ('k, 'pc) solver =
  m_data :: data
  m_preconditioner :: 'pc
  m_kkt :: 'k
  m_kkt_init_state :: bool
  m_setup_done :: bool
  res_x :: vec
  res_y :: vec
  res_z :: vec
  res_z_lb :: vec
  res_z_ub :: vec
  res_s :: vec
  res_s_lb :: vec
  res_s_ub :: vec
  res_zeta :: vec
  res_lambda :: vec
  res_nu :: vec
  res_nu_lb :: vec
  res_nu_ub :: vec
  status :: Status
  iter :: int
  rho :: real
  delta :: real
  mu :: real
  sigma :: real
  primal_step :: real
  dual_step :: real
  primal_inf :: real
  dual_inf :: real
  reg_limit :: real
  factor_retires :: int
  no_primal_update :: int
  no_dual_update :: int
  rx :: vec
  ry :: vec
  rz :: vec
  rz_lb :: vec
  rz_ub :: vec
  rs :: vec
  rs_lb :: vec
  rs_ub :: vec
  rx_nr :: vec
  ry_nr :: vec
  rz_nr :: vec
  rz_lb_nr :: vec
  rz_ub_nr :: vec
  dx :: vec
  dy :: vec
  dz :: vec
  dz_lb :: vec
  dz_ub :: vec
  ds :: vec
  ds_lb :: vec
  ds_ub :: vec
  primal_rel_inf :: real
  dual_rel_inf :: real

text \<open>
  The collaborators of the driver whose code is not part of \<open>solver.hpp\<close>: the predicate
  \<open>verify_settings\<close>, the KKT operator and the preconditioner.  They are parameters of the
  model.  \<open>kkt_solve\<close> gets the right-hand side and the vectors it writes into, and returns
  what these hold afterwards.
\<close>

record ('k, 'pc) env =
  verify_settings :: "settings \<Rightarrow> bool"
  kkt_init :: "data \<Rightarrow> real \<Rightarrow> real \<Rightarrow> 'k \<Rightarrow> 'k"
  kkt_update_scalings :: "data \<Rightarrow> real \<Rightarrow> real \<Rightarrow> vec \<Rightarrow> vec \<Rightarrow> vec \<Rightarrow> vec \<Rightarrow> vec \<Rightarrow> vec \<Rightarrow> 'k \<Rightarrow> 'k"
  kkt_factorize :: "data \<Rightarrow> 'k \<Rightarrow> bool \<times> 'k"
  kkt_solve :: "data \<Rightarrow> 'k \<Rightarrow> vec8 \<Rightarrow> vec8 \<Rightarrow> vec8 \<times> 'k"
  precond_init :: "data \<Rightarrow> 'pc \<Rightarrow> 'pc"
  scale_data :: "data \<Rightarrow> bool \<Rightarrow> int \<Rightarrow> 'pc \<Rightarrow> data \<times> 'pc"
  unscale_primal :: "'pc \<Rightarrow> vec \<Rightarrow> vec"
  unscale_dual_eq :: "'pc \<Rightarrow> vec \<Rightarrow> vec"
  unscale_dual_ineq :: "'pc \<Rightarrow> vec \<Rightarrow> vec"
  unscale_dual_lb :: "'pc \<Rightarrow> vec \<Rightarrow> vec"
  unscale_dual_ub :: "'pc \<Rightarrow> vec \<Rightarrow> vec"
  unscale_slack_ineq :: "'pc \<Rightarrow> vec \<Rightarrow> vec"
  unscale_slack_lb :: "'pc \<Rightarrow> vec \<Rightarrow> vec"
  unscale_slack_ub :: "'pc \<Rightarrow> vec \<Rightarrow> vec"
  unscale_primal_res_eq :: "'pc \<Rightarrow> vec \<Rightarrow> vec"
  unscale_primal_res_ineq :: "'pc \<Rightarrow> vec \<Rightarrow> vec"
  unscale_primal_res_lb :: "'pc \<Rightarrow> vec \<Rightarrow> vec"
  unscale_primal_res_ub :: "'pc \<Rightarrow> vec \<Rightarrow> vec"
  unscale_dual_res :: "'pc \<Rightarrow> vec \<Rightarrow> vec"

section \<open>Vector and matrix operations\<close>

definition vadd :: "vec \<Rightarrow> vec \<Rightarrow> vec" where
  "vadd a b = map2 (+) a b"

definition vsub :: "vec \<Rightarrow> vec \<Rightarrow> vec" where
  "vsub a b = map2 (-) a b"

definition cmul :: "vec \<Rightarrow> vec \<Rightarrow> vec" where
  "cmul a b = map2 (*) a b"

definition smul :: "real \<Rightarrow> vec \<Rightarrow> vec" where
  "smul k a = map ((*) k) a"

definition vneg :: "vec \<Rightarrow> vec" where
  "vneg a = map uminus a"

definition shift :: "real \<Rightarrow> vec \<Rightarrow> vec" where
  "shift k a = map (\<lambda>v. v + k) a"

definition dot :: "vec \<Rightarrow> vec \<Rightarrow> real" where
  "dot a b = sum_list (map2 (*) a b)"

text \<open>\<open>lpNorm<Infinity>\<close>: the largest absolute value, \<open>0\<close> for the empty vector.\<close>

definition lpNorm_inf :: "vec \<Rightarrow> real" where
  "lpNorm_inf a = fold (\<lambda>v acc. max acc \<bar>v\<bar>) a 0"

text \<open>\<open>minCoeff\<close>; the code calls it on non-empty vectors only.\<close>

definition minCoeff :: "vec \<Rightarrow> real" where
  "minCoeff a = fold min (tl a) (hd a)"

text \<open>\<open>v.head(k) = h\<close> and \<open>v.head(k).setConstant(c)\<close>, \<open>v.tail(k).setConstant(c)\<close>.\<close>

definition head_upd :: "nat \<Rightarrow> vec \<Rightarrow> vec \<Rightarrow> vec" where
  "head_upd k h v = h @ drop k v"

definition setConstant :: "real \<Rightarrow> vec \<Rightarrow> vec" where
  "setConstant c v = map (\<lambda>_. c) v"

definition head_setConstant :: "nat \<Rightarrow> real \<Rightarrow> vec \<Rightarrow> vec" where
  "head_setConstant k c v = head_upd k (setConstant c (take k v)) v"

definition tail_setConstant :: "nat \<Rightarrow> real \<Rightarrow> vec \<Rightarrow> vec" where
  "tail_setConstant k c v = take (length v - k) v @ setConstant c (drop (length v - k) v)"

definition mat_vec :: "mat \<Rightarrow> vec \<Rightarrow> vec" where
  "mat_vec M v = map (\<lambda>row. dot row v) M"

definition mneg :: "mat \<Rightarrow> mat" where
  "mneg M = map vneg M"

text \<open>The transpose of a matrix with \<open>c\<close> columns.\<close>

definition transpose_mat :: "nat \<Rightarrow> mat \<Rightarrow> mat" where
  "transpose_mat c M = map (\<lambda>j. map (\<lambda>row. row ! j) M) [0..<c]"

definition triangularView_Upper :: "mat \<Rightarrow> mat" where
  "triangularView_Upper M =
     map (\<lambda>i. map (\<lambda>j. if i \<le> j then M ! i ! j else 0) [0..<length (M ! i)]) [0..<length M]"

definition triangularView_StrictlyLower :: "mat \<Rightarrow> mat" where
  "triangularView_StrictlyLower M =
     map (\<lambda>i. map (\<lambda>j. if j < i then M ! i ! j else 0) [0..<length (M ! i)]) [0..<length M]"

section \<open>Non-regularised residuals\<close>

text \<open>
  \<open>update_nr_residuals\<close>, statement by statement.  The first half of the function assembles
  \<open>rx_nr\<close> with \<open>dx\<close> as scratch vector and the running maximum \<open>dual_rel_inf\<close>; the second
  half computes the four primal residuals and \<open>primal_rel_inf\<close>.
\<close>

definition nr_dual_part :: "('k, 'pc) env \<Rightarrow> ('k, 'pc) solver \<Rightarrow> vec \<times> vec \<times> real" where
  "nr_dual_part env st =
     (let d = m_data st; pc = m_preconditioner st;
          rx_nr1 = mat_vec (mneg (P_utri d)) (res_x st);
          rx_nr2 = vsub rx_nr1
                     (mat_vec (triangularView_StrictlyLower (transpose_mat (data_n d) (P_utri d))) (res_x st));
          dri1 = lpNorm_inf (unscale_dual_res env pc rx_nr2);
          rx_nr3 = vsub rx_nr2 (data_c d);
          dx1 = mat_vec (AT d) (res_y st);
          dri2 = max dri1 (lpNorm_inf (unscale_dual_res env pc dx1));
          rx_nr4 = vsub rx_nr3 dx1;
          dx2 = mat_vec (GT d) (res_z st);
          dri3 = max dri2 (lpNorm_inf (unscale_dual_res env pc dx2));
          rx_nr5 = vsub rx_nr4 dx2;
          dx3 = fold (\<lambda>i v. v[x_lb_idx d ! i := - (res_z_lb st ! i)]) [0..<n_lb d] (setConstant 0 dx2);
          dri4 = max dri3 (lpNorm_inf (unscale_dual_res env pc dx3));
          rx_nr6 = vsub rx_nr5 dx3;
          dx4 = fold (\<lambda>i v. v[x_ub_idx d ! i := res_z_ub st ! i]) [0..<n_ub d] (setConstant 0 dx3);
          dri5 = max dri4 (lpNorm_inf (unscale_dual_res env pc dx4));
          rx_nr7 = vsub rx_nr6 dx4
      in (rx_nr7, dx4, dri5))"

definition nr_primal_part :: "('k, 'pc) env \<Rightarrow> ('k, 'pc) solver \<Rightarrow> vec \<times> vec \<times> vec \<times> vec \<times> real" where
  "nr_primal_part env st =
     (let d = m_data st; pc = m_preconditioner st;
          ry_nr1 = mat_vec (mneg (transpose_mat (data_p d) (AT d))) (res_x st);
          pri1 = lpNorm_inf (unscale_primal_res_eq env pc ry_nr1);
          ry_nr2 = vadd ry_nr1 (data_b d);
          pri2 = max pri1 (lpNorm_inf (unscale_primal_res_eq env pc (data_b d)));
          rz_nr1 = mat_vec (mneg (transpose_mat (data_m d) (GT d))) (res_x st);
          pri3 = max pri2 (lpNorm_inf (unscale_primal_res_ineq env pc rz_nr1));
          rz_nr2 = vadd rz_nr1 (vsub (data_h d) (res_s st));
          pri4 = max pri3 (lpNorm_inf (unscale_primal_res_ineq env pc (data_h d)));
          rz_lb_nr1 = fold (\<lambda>i v. v[i := res_x st ! (x_lb_idx d ! i) + x_lb_n d ! i - res_s_lb st ! i])
                        [0..<n_lb d] (rz_lb_nr st);
          pri5 = max pri4 (lpNorm_inf (unscale_primal_res_lb env pc (take (n_lb d) rz_lb_nr1)));
          pri6 = max pri5 (lpNorm_inf (unscale_primal_res_lb env pc (take (n_lb d) (x_lb_n d))));
          rz_ub_nr1 = fold (\<lambda>i v. v[i := - (res_x st ! (x_ub_idx d ! i)) + x_ub d ! i - res_s_ub st ! i])
                        [0..<n_ub d] (rz_ub_nr st);
          pri7 = max pri6 (lpNorm_inf (unscale_primal_res_ub env pc (take (n_ub d) rz_ub_nr1)));
          pri8 = max pri7 (lpNorm_inf (unscale_primal_res_ub env pc (take (n_ub d) (x_ub d))))
      in (ry_nr2, rz_nr2, rz_lb_nr1, rz_ub_nr1, pri8))"

definition update_nr_residuals :: "('k, 'pc) env \<Rightarrow> ('k, 'pc) solver \<Rightarrow> ('k, 'pc) solver" where
  "update_nr_residuals env st =
     (case nr_dual_part env st of (v_rx, v_dx, v_dri) \<Rightarrow>
      case nr_primal_part env st of (v_ry, v_rz, v_rz_lb, v_rz_ub, v_pri) \<Rightarrow>
        st\<lparr>rx_nr := v_rx, dx := v_dx, dual_rel_inf := v_dri,
           ry_nr := v_ry, rz_nr := v_rz, rz_lb_nr := v_rz_lb, rz_ub_nr := v_rz_ub,
           primal_rel_inf := v_pri\<rparr>)"

section \<open>Setup\<close>

text \<open>
  \<open>resize\<close> of a vector: Eigen keeps a vector whose size does not change and leaves the
  entries of a reallocated one uninitialised; the model fills them with \<open>0\<close>.
\<close>

definition resize_vec :: "nat \<Rightarrow> 'a::zero list \<Rightarrow> 'a list" where
  "resize_vec k v = (if length v = k then v else replicate k 0)"

definition init_workspace :: "settings \<Rightarrow> ('k, 'pc) solver \<Rightarrow> ('k, 'pc) solver" where
  "init_workspace se st =
     (let d = m_data st;
          st = st\<lparr>res_x := resize_vec (data_n d) (res_x st), res_y := resize_vec (data_p d) (res_y st),
                  res_z := resize_vec (data_m d) (res_z st), res_z_lb := resize_vec (data_n d) (res_z_lb st),
                  res_z_ub := resize_vec (data_n d) (res_z_ub st), res_s := resize_vec (data_m d) (res_s st),
                  res_s_lb := resize_vec (data_n d) (res_s_lb st),
                  res_s_ub := resize_vec (data_n d) (res_s_ub st)\<rparr>;
          st = st\<lparr>res_zeta := resize_vec (data_n d) (res_zeta st),
                  res_lambda := resize_vec (data_p d) (res_lambda st),
                  res_nu := resize_vec (data_m d) (res_nu st),
                  res_nu_lb := resize_vec (data_n d) (res_nu_lb st),
                  res_nu_ub := resize_vec (data_n d) (res_nu_ub st)\<rparr>;
          st = st\<lparr>rho := rho_init se, delta := delta_init se\<rparr>;
          st = st\<lparr>rx := resize_vec (data_n d) (rx st), ry := resize_vec (data_p d) (ry st),
                  rz := resize_vec (data_m d) (rz st), rz_lb := resize_vec (data_n d) (rz_lb st),
                  rz_ub := resize_vec (data_n d) (rz_ub st), rs := resize_vec (data_m d) (rs st),
                  rs_lb := resize_vec (data_n d) (rs_lb st), rs_ub := resize_vec (data_n d) (rs_ub st)\<rparr>;
          st = st\<lparr>rx_nr := resize_vec (data_n d) (rx_nr st), ry_nr := resize_vec (data_p d) (ry_nr st),
                  rz_nr := resize_vec (data_m d) (rz_nr st),
                  rz_lb_nr := resize_vec (data_n d) (rz_lb_nr st),
                  rz_ub_nr := resize_vec (data_n d) (rz_ub_nr st)\<rparr>
      in st\<lparr>dx := resize_vec (data_n d) (dx st), dy := resize_vec (data_p d) (dy st),
            dz := resize_vec (data_m d) (dz st), dz_lb := resize_vec (data_n d) (dz_lb st),
            dz_ub := resize_vec (data_n d) (dz_ub st), ds := resize_vec (data_m d) (ds st),
            ds_lb := resize_vec (data_n d) (ds_lb st), ds_ub := resize_vec (data_n d) (ds_ub st)\<rparr>)"

text \<open>
  \<open>setup_impl\<close> for the matrices \<open>P\<close>, \<open>A\<close>, \<open>G\<close> given by their rows.  The timer is left out.
\<close>

definition setup_impl ::
  "('k, 'pc) env \<Rightarrow> settings \<Rightarrow> mat \<Rightarrow> vec \<Rightarrow> mat \<Rightarrow> vec \<Rightarrow> mat \<Rightarrow> vec \<Rightarrow> vec option \<Rightarrow> vec option
     \<Rightarrow> ('k, 'pc) solver \<Rightarrow> ('k, 'pc) solver" where
  "setup_impl env se Pm cv Am bv Gm hv xlb_opt xub_opt st =
     (let d = m_data st;
          d = d\<lparr>data_n := length Pm, data_p := length Am, data_m := length Gm\<rparr>;
          d = d\<lparr>P_utri := triangularView_Upper Pm, AT := transpose_mat (data_n d) Am,
                GT := transpose_mat (data_n d) Gm, data_c := cv, data_b := bv, data_h := hv\<rparr>;
          d = d\<lparr>x_lb_n := resize_vec (data_n d) (x_lb_n d), x_ub := resize_vec (data_n d) (x_ub d),
                x_lb_idx := resize_vec (data_n d) (x_lb_idx d),
                x_ub_idx := resize_vec (data_n d) (x_ub_idx d)\<rparr>;
          d = setup_lb_data xlb_opt d;
          d = setup_ub_data xub_opt d;
          st = init_workspace se (st\<lparr>m_data := d\<rparr>);
          st = st\<lparr>m_preconditioner := precond_init env (m_data st) (m_preconditioner st)\<rparr>;
          sc = scale_data env (m_data st) False (preconditioner_iter se) (m_preconditioner st);
          st = st\<lparr>m_data := fst sc, m_preconditioner := snd sc\<rparr>;
          st = st\<lparr>m_kkt := kkt_init env (m_data st) (rho st) (delta st) (m_kkt st)\<rparr>
      in st\<lparr>m_kkt_init_state := True, m_setup_done := True\<rparr>)"

section \<open>The initial iterate\<close>

text \<open>The assignments to \<open>m_result.info\<close> at the start of \<open>solve_impl\<close>.\<close>

definition reset_info :: "settings \<Rightarrow> ('k, 'pc) solver \<Rightarrow> ('k, 'pc) solver" where
  "reset_info se st =
     st\<lparr>status := PIQP_UNSOLVED, iter := 0, reg_limit := reg_lower_limit se, factor_retires := 0,
        no_primal_update := 0, no_dual_update := 0, mu := 0, primal_step := 0, dual_step := 0\<rparr>"

text \<open>The block guarded by \<open>!m_kkt_init_state\<close>.\<close>

definition reset_scalings :: "('k, 'pc) env \<Rightarrow> settings \<Rightarrow> ('k, 'pc) solver \<Rightarrow> ('k, 'pc) solver" where
  "reset_scalings env se st =
     (let d = m_data st;
          st = st\<lparr>rho := rho_init se, delta := delta_init se\<rparr>;
          st = st\<lparr>res_s := setConstant 1 (res_s st),
                  res_s_lb := head_setConstant (n_lb d) 1 (res_s_lb st),
                  res_s_ub := head_setConstant (n_ub d) 1 (res_s_ub st),
                  res_z := setConstant 1 (res_z st),
                  res_z_lb := head_setConstant (n_lb d) 1 (res_z_lb st),
                  res_z_ub := head_setConstant (n_ub d) 1 (res_z_ub st)\<rparr>
      in st\<lparr>m_kkt := kkt_update_scalings env d (rho st) (delta st)
                          (res_s st) (res_s_lb st) (res_s_ub st)
                          (res_z st) (res_z_lb st) (res_z_ub st) (m_kkt st)\<rparr>)"

text \<open>
  The first factorisation loop \<open>while (!m_kkt.factorize())\<close>.  The result says whether the
  loop was left by a successful factorisation (\<open>True\<close>) or by the \<open>return\<close> (\<open>False\<close>).
\<close>

function initial_factorize ::
  "('k, 'pc) env \<Rightarrow> settings \<Rightarrow> ('k, 'pc) solver \<Rightarrow> bool \<times> ('k, 'pc) solver" where
  "initial_factorize env se st =
     (let r = kkt_factorize env (m_data st) (m_kkt st);
          st1 = st\<lparr>m_kkt := snd r\<rparr>
      in if \<not> fst r then
           (if factor_retires st1 < max_factor_retires se
            then initial_factorize env se
                   (st1\<lparr>delta := delta st1 * 100, rho := rho st1 * 100,
                        factor_retires := factor_retires st1 + 1,
                        reg_limit := min (10 * reg_limit st1) (feas_tol_abs se)\<rparr>)
            else (False, st1\<lparr>status := PIQP_NUMERICS\<rparr>))
         else (True, st1\<lparr>factor_retires := 0\<rparr>))"
  by pat_completeness auto
termination
  by (relation "measure (\<lambda>(env, se, st). nat (max_factor_retires se - factor_retires st))") auto

declare initial_factorize.simps [simp del]

text \<open>The Newton solve for the initial iterate.\<close>

definition initial_solve :: "('k, 'pc) env \<Rightarrow> ('k, 'pc) solver \<Rightarrow> ('k, 'pc) solver" where
  "initial_solve env st =
     (let d = m_data st;
          st = st\<lparr>rx := vneg (data_c d)\<rparr>;
          st = st\<lparr>rs := setConstant 0 (rs st), rs_lb := setConstant 0 (rs_lb st),
                  rs_ub := setConstant 0 (rs_ub st)\<rparr>;
          r = kkt_solve env d (m_kkt st)
                \<lparr>blk_x = rx st, blk_y = data_b d, blk_z = data_h d, blk_z_lb = x_lb_n d,
                 blk_z_ub = x_ub d, blk_s = rs st, blk_s_lb = rs_lb st, blk_s_ub = rs_ub st\<rparr>
                \<lparr>blk_x = res_x st, blk_y = res_y st, blk_z = res_z st, blk_z_lb = res_z_lb st,
                 blk_z_ub = res_z_ub st, blk_s = res_s st, blk_s_lb = res_s_lb st,
                 blk_s_ub = res_s_ub st\<rparr>
      in st\<lparr>res_x := blk_x (fst r), res_y := blk_y (fst r), res_z := blk_z (fst r),
            res_z_lb := blk_z_lb (fst r), res_z_ub := blk_z_ub (fst r), res_s := blk_s (fst r),
            res_s_lb := blk_s_lb (fst r), res_s_ub := blk_s_ub (fst r), m_kkt := snd r\<rparr>)"

text \<open>The reset of slacks and multipliers when the slack norm is at most \<open>1e-4\<close>.\<close>

definition slack_norm :: "('k, 'pc) solver \<Rightarrow> real" where
  "slack_norm st =
     (let d = m_data st;
          s_norm = 0;
          s_norm = max s_norm (lpNorm_inf (res_s st));
          s_norm = max s_norm (lpNorm_inf (take (n_lb d) (res_s_lb st)));
          s_norm = max s_norm (lpNorm_inf (take (n_ub d) (res_s_ub st)))
      in s_norm)"

definition reset_small_slacks :: "('k, 'pc) solver \<Rightarrow> ('k, 'pc) solver" where
  "reset_small_slacks st =
     (let d = m_data st
      in if slack_norm st \<le> 1 / 10 ^ 4
         then st\<lparr>res_s := setConstant (1 / 10) (res_s st),
                 res_s_lb := head_setConstant (n_lb d) (1 / 10) (res_s_lb st),
                 res_s_ub := head_setConstant (n_ub d) (1 / 10) (res_s_ub st),
                 res_z := setConstant (1 / 10) (res_z st),
                 res_z_lb := head_setConstant (n_lb d) (1 / 10) (res_z_lb st),
                 res_z_ub := head_setConstant (n_ub d) (1 / 10) (res_z_ub st)\<rparr>
         else st)"

text \<open>The complementarity measure \<open>mu\<close> of the current slacks and multipliers.\<close>

definition complementarity :: "('k, 'pc) solver \<Rightarrow> real" where
  "complementarity st =
     (let d = m_data st
      in (dot (res_s st) (res_z st)
          + dot (take (n_lb d) (res_s_lb st)) (take (n_lb d) (res_z_lb st))
          + dot (take (n_ub d) (res_s_ub st)) (take (n_ub d) (res_z_ub st)))
         / real (data_m d + n_lb d + n_ub d))"

text \<open>
  The shift of the initial slacks and multipliers into the positive orthant: first the two
  amounts \<open>delta_s_bar\<close> and \<open>delta_z_bar\<close>, then the update.
\<close>

definition initial_shifts :: "('k, 'pc) solver \<Rightarrow> real \<times> real" where
  "initial_shifts st =
     (let d = m_data st;
          s_lb = take (n_lb d) (res_s_lb st); s_ub = take (n_ub d) (res_s_ub st);
          z_lb = take (n_lb d) (res_z_lb st); z_ub = take (n_ub d) (res_z_ub st);
          delta_s = 0;
          delta_s = (if data_m d > 0 then max delta_s (- (3 / 2) * minCoeff (res_s st)) else delta_s);
          delta_s = (if n_lb d > 0 then max delta_s (- (3 / 2) * minCoeff s_lb) else delta_s);
          delta_s = (if n_ub d > 0 then max delta_s (- (3 / 2) * minCoeff s_ub) else delta_s);
          delta_z = 0;
          delta_z = (if data_m d > 0 then max delta_z (- (3 / 2) * minCoeff (res_z st)) else delta_z);
          delta_z = (if n_lb d > 0 then max delta_z (- (3 / 2) * minCoeff z_lb) else delta_z);
          delta_z = (if n_ub d > 0 then max delta_z (- (3 / 2) * minCoeff z_ub) else delta_z);
          tmp_prod = dot (shift delta_s (res_s st)) (shift delta_z (res_z st));
          tmp_prod = tmp_prod + dot (shift delta_s s_lb) (shift delta_z z_lb);
          tmp_prod = tmp_prod + dot (shift delta_s s_ub) (shift delta_z z_ub);
          delta_s_bar = delta_s + ((1 / 2) * tmp_prod)
              / (sum_list (res_z st) + sum_list z_lb + sum_list z_ub
                 + real (data_m d + n_lb d + n_ub d) * delta_z);
          delta_z_bar = delta_z + ((1 / 2) * tmp_prod)
              / (sum_list (res_s st) + sum_list s_lb + sum_list s_ub
                 + real (data_m d + n_lb d + n_ub d) * delta_s)
      in (delta_s_bar, delta_z_bar))"

definition shift_initial_point :: "('k, 'pc) solver \<Rightarrow> ('k, 'pc) solver" where
  "shift_initial_point st =
     (let d = m_data st;
          delta_s_bar = fst (initial_shifts st);
          delta_z_bar = snd (initial_shifts st);
          st1 = st\<lparr>res_s := shift delta_s_bar (res_s st),
                   res_s_lb := head_upd (n_lb d) (shift delta_s_bar (take (n_lb d) (res_s_lb st))) (res_s_lb st),
                   res_s_ub := head_upd (n_ub d) (shift delta_s_bar (take (n_ub d) (res_s_ub st))) (res_s_ub st),
                   res_z := shift delta_z_bar (res_z st),
                   res_z_lb := head_upd (n_lb d) (shift delta_z_bar (take (n_lb d) (res_z_lb st))) (res_z_lb st),
                   res_z_ub := head_upd (n_ub d) (shift delta_z_bar (take (n_ub d) (res_z_ub st))) (res_z_ub st)\<rparr>
      in st1\<lparr>mu := complementarity st1\<rparr>)"

definition initial_point :: "('k, 'pc) solver \<Rightarrow> ('k, 'pc) solver" where
  "initial_point st =
     (let d = m_data st
      in if data_m d + n_lb d + n_ub d > 0 then shift_initial_point (reset_small_slacks st) else st)"

text \<open>The proximal centres start at the initial iterate.\<close>

definition init_prox :: "('k, 'pc) solver \<Rightarrow> ('k, 'pc) solver" where
  "init_prox st =
     (let d = m_data st
      in st\<lparr>res_zeta := res_x st, res_lambda := res_y st, res_nu := res_z st,
            res_nu_lb := head_upd (n_lb d) (take (n_lb d) (res_z_lb st)) (res_nu_lb st),
            res_nu_ub := head_upd (n_ub d) (take (n_ub d) (res_z_ub st)) (res_nu_ub st)\<rparr>)"

section \<open>The outer loop\<close>

text \<open>
  The largest of the four unscaled infinity norms of primal residual blocks; the code
  computes it three times, for \<open>primal_inf\<close>, for the primal infeasibility test and for the
  update of \<open>delta\<close>.
\<close>

definition primal_res_norm :: "('k, 'pc) env \<Rightarrow> ('k, 'pc) solver \<Rightarrow> vec \<Rightarrow> vec \<Rightarrow> vec \<Rightarrow> vec \<Rightarrow> real" where
  "primal_res_norm env st v_y v_z v_z_lb v_z_ub =
     (let d = m_data st; pc = m_preconditioner st;
          nrm = lpNorm_inf (unscale_primal_res_eq env pc v_y);
          nrm = max nrm (lpNorm_inf (unscale_primal_res_ineq env pc v_z));
          nrm = max nrm (lpNorm_inf (unscale_primal_res_lb env pc (take (n_lb d) v_z_lb)));
          nrm = max nrm (lpNorm_inf (unscale_primal_res_ub env pc (take (n_ub d) v_z_ub)))
      in nrm)"

definition compute_infeasibilities :: "('k, 'pc) env \<Rightarrow> ('k, 'pc) solver \<Rightarrow> ('k, 'pc) solver" where
  "compute_infeasibilities env st =
     st\<lparr>primal_inf := primal_res_norm env st (ry_nr st) (rz_nr st) (rz_lb_nr st) (rz_ub_nr st),
        dual_inf := lpNorm_inf (unscale_dual_res env (m_preconditioner st) (rx_nr st))\<rparr>"

text \<open>The convergence test.\<close>

definition converged :: "settings \<Rightarrow> ('k, 'pc) solver \<Rightarrow> bool" where
  "converged se st \<longleftrightarrow>
     primal_inf st < feas_tol_abs se + feas_tol_rel se * primal_rel_inf st \<and>
     dual_inf st < feas_tol_abs se + feas_tol_rel se * dual_rel_inf st \<and>
     mu st < dual_tol se"

definition regularized_residuals :: "('k, 'pc) solver \<Rightarrow> ('k, 'pc) solver" where
  "regularized_residuals st =
     (let d = m_data st
      in st\<lparr>rx := vsub (rx_nr st) (smul (rho st) (vsub (res_x st) (res_zeta st))),
            ry := vsub (ry_nr st) (smul (delta st) (vsub (res_lambda st) (res_y st))),
            rz := vsub (rz_nr st) (smul (delta st) (vsub (res_nu st) (res_z st))),
            rz_lb := head_upd (n_lb d)
                       (vsub (take (n_lb d) (rz_lb_nr st))
                          (smul (delta st) (vsub (take (n_lb d) (res_nu_lb st)) (take (n_lb d) (res_z_lb st)))))
                       (rz_lb st),
            rz_ub := head_upd (n_ub d)
                       (vsub (take (n_ub d) (rz_ub_nr st))
                          (smul (delta st) (vsub (take (n_ub d) (res_nu_ub st)) (take (n_ub d) (res_z_ub st)))))
                       (rz_ub st)\<rparr>)"

definition dual_prox_inf_norm :: "('k, 'pc) env \<Rightarrow> ('k, 'pc) solver \<Rightarrow> real" where
  "dual_prox_inf_norm env st =
     (let d = m_data st; pc = m_preconditioner st;
          nrm = lpNorm_inf (unscale_dual_eq env pc (vsub (res_lambda st) (res_y st)));
          nrm = max nrm (lpNorm_inf (unscale_dual_ineq env pc (vsub (res_nu st) (res_z st))));
          nrm = max nrm (lpNorm_inf (unscale_dual_lb env pc
                  (vsub (take (n_lb d) (res_nu_lb st)) (take (n_lb d) (res_z_lb st)))));
          nrm = max nrm (lpNorm_inf (unscale_dual_ub env pc
                  (vsub (take (n_ub d) (res_nu_ub st)) (take (n_ub d) (res_z_ub st)))))
      in nrm)"

definition primal_infeasible :: "('k, 'pc) env \<Rightarrow> settings \<Rightarrow> ('k, 'pc) solver \<Rightarrow> bool" where
  "primal_infeasible env se st \<longleftrightarrow>
     no_dual_update st > 5 \<and> dual_prox_inf_norm env st > 10 ^ 10 \<and>
     primal_res_norm env st (ry st) (rz st) (rz_lb st) (rz_ub st) < feas_tol_abs se"

definition dual_infeasible :: "('k, 'pc) env \<Rightarrow> settings \<Rightarrow> ('k, 'pc) solver \<Rightarrow> bool" where
  "dual_infeasible env se st \<longleftrightarrow>
     no_primal_update st > 5 \<and>
     lpNorm_inf (unscale_primal env (m_preconditioner st) (vsub (res_x st) (res_zeta st))) > 10 ^ 10 \<and>
     lpNorm_inf (unscale_dual_res env (m_preconditioner st) (rx st)) < feas_tol_abs se"

text \<open>The floor of the regularisation is set to \<open>1e-13\<close> when the iteration stalls at it.\<close>

definition relax_reg_limit :: "('k, 'pc) solver \<Rightarrow> ('k, 'pc) solver" where
  "relax_reg_limit st =
     (if (no_primal_update st > 5 \<and> rho st = reg_limit st \<and> reg_limit st \<noteq> 1 / 10 ^ 13) \<or>
         (no_dual_update st > 5 \<and> delta st = reg_limit st \<and> reg_limit st \<noteq> 1 / 10 ^ 13)
      then st\<lparr>reg_limit := 1 / 10 ^ 13, no_primal_update := 0, no_dual_update := 0\<rparr>
      else st)"

text \<open>
  \<open>update_scalings\<close> and \<open>factorize\<close> in the loop, with the three ways the code goes on: the
  factorisation succeeded, it failed and the pass is repeated (\<open>continue\<close>), or it failed
  for good (\<open>return\<close>).
\<close>

datatype 'a factor_result = Factor_ok 'a | Factor_retry 'a | Factor_failed 'a

definition refactorize :: "('k, 'pc) env \<Rightarrow> settings \<Rightarrow> ('k, 'pc) solver \<Rightarrow> ('k, 'pc) solver factor_result" where
  "refactorize env se st =
     (let st = st\<lparr>m_kkt := kkt_update_scalings env (m_data st) (rho st) (delta st)
                              (res_s st) (res_s_lb st) (res_s_ub st)
                              (res_z st) (res_z_lb st) (res_z_ub st) (m_kkt st)\<rparr>;
          st = st\<lparr>m_kkt_init_state := False\<rparr>;
          r = kkt_factorize env (m_data st) (m_kkt st);
          kkt_success = fst r;
          st = st\<lparr>m_kkt := snd r\<rparr>
      in if \<not> kkt_success then
           (if factor_retires st < max_factor_retires se
            then Factor_retry (st\<lparr>delta := delta st * 100, rho := rho st * 100, iter := iter st - 1,
                                  factor_retires := factor_retires st + 1,
                                  reg_limit := min (10 * reg_limit st) (feas_tol_abs se)\<rparr>)
            else Factor_failed (st\<lparr>status := PIQP_NUMERICS\<rparr>))
         else Factor_ok (st\<lparr>factor_retires := 0\<rparr>))"

text \<open>The Newton solve \<open>m_kkt.solve(rx, ..., rs_ub, dx, ..., ds_ub)\<close>.\<close>

definition newton_solve :: "('k, 'pc) env \<Rightarrow> ('k, 'pc) solver \<Rightarrow> ('k, 'pc) solver" where
  "newton_solve env st =
     (let r = kkt_solve env (m_data st) (m_kkt st)
                \<lparr>blk_x = rx st, blk_y = ry st, blk_z = rz st, blk_z_lb = rz_lb st,
                 blk_z_ub = rz_ub st, blk_s = rs st, blk_s_lb = rs_lb st, blk_s_ub = rs_ub st\<rparr>
                \<lparr>blk_x = dx st, blk_y = dy st, blk_z = dz st, blk_z_lb = dz_lb st,
                 blk_z_ub = dz_ub st, blk_s = ds st, blk_s_lb = ds_lb st, blk_s_ub = ds_ub st\<rparr>
      in st\<lparr>dx := blk_x (fst r), dy := blk_y (fst r), dz := blk_z (fst r),
            dz_lb := blk_z_lb (fst r), dz_ub := blk_z_ub (fst r), ds := blk_s (fst r),
            ds_lb := blk_s_lb (fst r), ds_ub := blk_s_ub (fst r), m_kkt := snd r\<rparr>)"

definition predictor_rhs :: "('k, 'pc) solver \<Rightarrow> ('k, 'pc) solver" where
  "predictor_rhs st =
     (let d = m_data st
      in st\<lparr>rs := cmul (vneg (res_s st)) (res_z st),
            rs_lb := head_upd (n_lb d)
                       (cmul (vneg (take (n_lb d) (res_s_lb st))) (take (n_lb d) (res_z_lb st))) (rs_lb st),
            rs_ub := head_upd (n_ub d)
                       (cmul (vneg (take (n_ub d) (res_s_ub st))) (take (n_ub d) (res_z_ub st))) (rs_ub st)\<rparr>)"

text \<open>
  The step to the boundary of the non-negative orthant: one pass of each of the three
  loops updates the pair \<open>(alpha_s, alpha_z)\<close>.
\<close>

definition ratio_body :: "vec \<Rightarrow> vec \<Rightarrow> vec \<Rightarrow> vec \<Rightarrow> nat \<Rightarrow> real \<times> real \<Rightarrow> real \<times> real" where
  "ratio_body sv dsv zv dzv i a =
     (let alpha_s = (if dsv ! i < 0 then min (fst a) (- (sv ! i) / dsv ! i) else fst a);
          alpha_z = (if dzv ! i < 0 then min (snd a) (- (zv ! i) / dzv ! i) else snd a)
      in (alpha_s, alpha_z))"

definition step_to_boundary :: "('k, 'pc) solver \<Rightarrow> real \<times> real" where
  "step_to_boundary st =
     (let d = m_data st;
          a = (1, 1);
          a = fold (ratio_body (res_s st) (ds st) (res_z st) (dz st)) [0..<data_m d] a;
          a = fold (ratio_body (res_s_lb st) (ds_lb st) (res_z_lb st) (dz_lb st)) [0..<n_lb d] a;
          a = fold (ratio_body (res_s_ub st) (ds_ub st) (res_z_ub st) (dz_ub st)) [0..<n_ub d] a
      in a)"

definition centering_sigma :: "real \<Rightarrow> real \<Rightarrow> ('k, 'pc) solver \<Rightarrow> real" where
  "centering_sigma alpha_s alpha_z st =
     (let d = m_data st;
          sg = dot (vadd (res_s st) (smul alpha_s (ds st))) (vadd (res_z st) (smul alpha_z (dz st)));
          sg = sg + dot (vadd (take (n_lb d) (res_s_lb st)) (smul alpha_s (take (n_lb d) (ds_lb st))))
                        (vadd (take (n_lb d) (res_z_lb st)) (smul alpha_z (take (n_lb d) (dz_lb st))));
          sg = sg + dot (vadd (take (n_ub d) (res_s_ub st)) (smul alpha_s (take (n_ub d) (ds_ub st))))
                        (vadd (take (n_ub d) (res_z_ub st)) (smul alpha_z (take (n_ub d) (dz_ub st))));
          sg = sg / (mu st * real (data_m d + n_lb d + n_ub d));
          sg = sg * sg * sg
      in sg)"

definition centering :: "real \<Rightarrow> real \<Rightarrow> ('k, 'pc) solver \<Rightarrow> ('k, 'pc) solver" where
  "centering alpha_s alpha_z st = st\<lparr>sigma := centering_sigma alpha_s alpha_z st\<rparr>"

definition corrector_rhs :: "('k, 'pc) solver \<Rightarrow> ('k, 'pc) solver" where
  "corrector_rhs st =
     (let d = m_data st
      in st\<lparr>rs := vadd (rs st) (shift (sigma st * mu st) (cmul (vneg (ds st)) (dz st))),
            rs_lb := head_upd (n_lb d)
                       (vadd (take (n_lb d) (rs_lb st))
                          (shift (sigma st * mu st)
                             (cmul (vneg (take (n_lb d) (ds_lb st))) (take (n_lb d) (dz_lb st)))))
                       (rs_lb st),
            rs_ub := head_upd (n_ub d)
                       (vadd (take (n_ub d) (rs_ub st))
                          (shift (sigma st * mu st)
                             (cmul (vneg (take (n_ub d) (ds_ub st))) (take (n_ub d) (dz_ub st)))))
                       (rs_ub st)\<rparr>)"

text \<open>The fraction-to-boundary step lengths of the corrector.\<close>

definition damped_steps :: "settings \<Rightarrow> ('k, 'pc) solver \<Rightarrow> ('k, 'pc) solver" where
  "damped_steps se st =
     (let a = step_to_boundary st
      in st\<lparr>primal_step := fst a * tau se, dual_step := snd a * tau se\<rparr>)"

definition take_step :: "('k, 'pc) solver \<Rightarrow> ('k, 'pc) solver" where
  "take_step st =
     (let d = m_data st
      in st\<lparr>res_x := vadd (res_x st) (smul (primal_step st) (dx st)),
            res_y := vadd (res_y st) (smul (dual_step st) (dy st)),
            res_z := vadd (res_z st) (smul (dual_step st) (dz st)),
            res_z_lb := head_upd (n_lb d)
                          (vadd (take (n_lb d) (res_z_lb st)) (smul (dual_step st) (take (n_lb d) (dz_lb st))))
                          (res_z_lb st),
            res_z_ub := head_upd (n_ub d)
                          (vadd (take (n_ub d) (res_z_ub st)) (smul (dual_step st) (take (n_ub d) (dz_ub st))))
                          (res_z_ub st),
            res_s := vadd (res_s st) (smul (primal_step st) (ds st)),
            res_s_lb := head_upd (n_lb d)
                          (vadd (take (n_lb d) (res_s_lb st)) (smul (primal_step st) (take (n_lb d) (ds_lb st))))
                          (res_s_lb st),
            res_s_ub := head_upd (n_ub d)
                          (vadd (take (n_ub d) (res_s_ub st)) (smul (primal_step st) (take (n_ub d) (ds_ub st))))
                          (res_s_ub st)\<rparr>)"

text \<open>
  The update of the proximal centre and of the regularisation, primal and dual; \<open>k_good\<close>
  and \<open>k_bad\<close> are the factors applied to \<open>rho\<close> or \<open>delta\<close> with and without progress.
\<close>

definition update_rho :: "('k, 'pc) env \<Rightarrow> real \<Rightarrow> real \<Rightarrow> ('k, 'pc) solver \<Rightarrow> ('k, 'pc) solver" where
  "update_rho env k_good k_bad st =
     (if lpNorm_inf (unscale_dual_res env (m_preconditioner st) (rx_nr st)) < (95 / 100) * dual_inf st
      then st\<lparr>res_zeta := res_x st, rho := max (reg_limit st) (k_good * rho st)\<rparr>
      else st\<lparr>no_primal_update := no_primal_update st + 1,
              rho := max (reg_limit st) (k_bad * rho st)\<rparr>)"

definition update_delta :: "('k, 'pc) env \<Rightarrow> real \<Rightarrow> real \<Rightarrow> ('k, 'pc) solver \<Rightarrow> ('k, 'pc) solver" where
  "update_delta env k_good k_bad st =
     (let d = m_data st;
          dual_nr_inf_norm = primal_res_norm env st (ry_nr st) (rz_nr st) (rz_lb_nr st) (rz_ub_nr st)
      in if dual_nr_inf_norm < (95 / 100) * primal_inf st
         then st\<lparr>res_lambda := res_y st, res_nu := res_z st,
                 res_nu_lb := head_upd (n_lb d) (take (n_lb d) (res_z_lb st)) (res_nu_lb st),
                 res_nu_ub := head_upd (n_ub d) (take (n_ub d) (res_z_ub st)) (res_nu_ub st),
                 delta := max (reg_limit st) (k_good * delta st)\<rparr>
         else st\<lparr>no_dual_update := no_dual_update st + 1,
                 delta := max (reg_limit st) (k_bad * delta st)\<rparr>)"

text \<open>The pass of the loop after a successful factorisation when there are inequalities.\<close>

definition ip_step :: "('k, 'pc) env \<Rightarrow> settings \<Rightarrow> ('k, 'pc) solver \<Rightarrow> ('k, 'pc) solver" where
  "ip_step env se st =
     (let st1 = newton_solve env (predictor_rhs st);
          a = step_to_boundary st1;
          alpha_s = fst a * tau se;
          alpha_z = snd a * tau se;
          st2 = newton_solve env (corrector_rhs (centering alpha_s alpha_z st1));
          st3 = take_step (damped_steps se st2);
          mu_prev = mu st3;
          st4 = st3\<lparr>mu := complementarity st3\<rparr>;
          mu_rate = \<bar>mu_prev - mu st4\<bar> / mu_prev
      in update_delta env (1 - mu_rate) (1 - (666 / 1000) * mu_rate)
           (update_rho env (1 - mu_rate) (1 - (666 / 1000) * mu_rate)
              (update_nr_residuals env st4)))"

text \<open>The same when there are none: a full Newton step.\<close>

definition update_eq_delta :: "('k, 'pc) env \<Rightarrow> ('k, 'pc) solver \<Rightarrow> ('k, 'pc) solver" where
  "update_eq_delta env st =
     (if lpNorm_inf (unscale_primal_res_eq env (m_preconditioner st) (ry_nr st)) < (95 / 100) * primal_inf st
      then st\<lparr>res_lambda := res_y st, delta := max (reg_limit st) ((1 / 10) * delta st)\<rparr>
      else st\<lparr>no_dual_update := no_dual_update st + 1,
              delta := max (reg_limit st) ((1 / 2) * delta st)\<rparr>)"

definition eq_step :: "('k, 'pc) env \<Rightarrow> ('k, 'pc) solver \<Rightarrow> ('k, 'pc) solver" where
  "eq_step env st =
     (let st1 = newton_solve env st;
          st2 = st1\<lparr>primal_step := 1, dual_step := 1\<rparr>;
          st3 = st2\<lparr>res_x := vadd (res_x st2) (smul (primal_step st2) (dx st2)),
                    res_y := vadd (res_y st2) (smul (dual_step st2) (dy st2))\<rparr>
      in update_eq_delta env (update_rho env (1 / 10) (1 / 2) (update_nr_residuals env st3)))"

text \<open>
  One pass of the body of \<open>while (iter < max_iter)\<close>: it ends with a \<open>return\<close> or goes back
  to the loop test.
\<close>

datatype 'a flow = Return 'a | Continue 'a

definition loop_top :: "('k, 'pc) env \<Rightarrow> ('k, 'pc) solver \<Rightarrow> ('k, 'pc) solver" where
  "loop_top env st =
     compute_infeasibilities env (if iter st = 0 then update_nr_residuals env st else st)"

definition outer_iteration :: "('k, 'pc) env \<Rightarrow> settings \<Rightarrow> ('k, 'pc) solver \<Rightarrow> ('k, 'pc) solver flow" where
  "outer_iteration env se st =
     (let st1 = loop_top env st
      in if converged se st1 then Return (st1\<lparr>status := PIQP_SOLVED\<rparr>)
         else
           let st2 = regularized_residuals st1
           in if primal_infeasible env se st2 then Return (st2\<lparr>status := PIQP_PRIMAL_INFEASIBLE\<rparr>)
              else if dual_infeasible env se st2 then Return (st2\<lparr>status := PIQP_DUAL_INFEASIBLE\<rparr>)
              else
                (case refactorize env se (relax_reg_limit (st2\<lparr>iter := iter st2 + 1\<rparr>)) of
                   Factor_failed st3 \<Rightarrow> Return st3
                 | Factor_retry st3 \<Rightarrow> Continue st3
                 | Factor_ok st3 \<Rightarrow>
                     Continue (if data_m (m_data st3) + n_lb (m_data st3) + n_ub (m_data st3) > 0
                               then ip_step env se st3 else eq_step env st3)))"

function main_loop :: "('k, 'pc) env \<Rightarrow> settings \<Rightarrow> ('k, 'pc) solver \<Rightarrow> ('k, 'pc) solver" where
  "main_loop env se st =
     (if iter st < max_iter se
      then (case outer_iteration env se st of
              Return st' \<Rightarrow> st'
            | Continue st' \<Rightarrow> main_loop env se st')
      else st\<lparr>status := PIQP_MAX_ITER_REACHED\<rparr>)"
  by pat_completeness auto
termination
proof (relation "measures [\<lambda>(env, se, st). nat (max_iter se - iter st),
                           \<lambda>(env, se, st). nat (max_factor_retires se - factor_retires st)]")
  show "wf (measures [\<lambda>(env :: ('k, 'pc) env, se, st :: ('k, 'pc) solver). nat (max_iter se - iter st),
                      \<lambda>(env, se, st). nat (max_factor_retires se - factor_retires st)])"
    by simp
next
  fix env :: "('k, 'pc) env" and se :: settings and st st' :: "('k, 'pc) solver"
  assume lt: "iter st < max_iter se" and c: "outer_iteration env se st = Continue st'"
  have nr: "iter (update_nr_residuals env s) = iter s"
           "factor_retires (update_nr_residuals env s) = factor_retires s" for s :: "('k, 'pc) solver"
    by (simp_all add: update_nr_residuals_def split: prod.splits)
  have top: "iter (loop_top env st) = iter st" "factor_retires (loop_top env st) = factor_retires st"
    by (simp_all add: loop_top_def compute_infeasibilities_def nr)
  have reg: "iter (regularized_residuals s) = iter s"
            "factor_retires (regularized_residuals s) = factor_retires s" for s :: "('k, 'pc) solver"
    by (simp_all add: regularized_residuals_def Let_def)
  have rel: "iter (relax_reg_limit s) = iter s"
            "factor_retires (relax_reg_limit s) = factor_retires s" for s :: "('k, 'pc) solver"
    by (simp_all add: relax_reg_limit_def)
  have ns: "iter (newton_solve env s) = iter s"
           "factor_retires (newton_solve env s) = factor_retires s" for s :: "('k, 'pc) solver"
    by (simp_all add: newton_solve_def Let_def)
  have ur: "iter (update_rho env a b s) = iter s"
           "factor_retires (update_rho env a b s) = factor_retires s" for a b and s :: "('k, 'pc) solver"
    by (simp_all add: update_rho_def)
  have ud: "iter (update_delta env a b s) = iter s"
           "factor_retires (update_delta env a b s) = factor_retires s" for a b and s :: "('k, 'pc) solver"
    by (simp_all add: update_delta_def Let_def)
  have ue: "iter (update_eq_delta env s) = iter s"
           "factor_retires (update_eq_delta env s) = factor_retires s" for s :: "('k, 'pc) solver"
    by (simp_all add: update_eq_delta_def)
  have stages: "iter (take_step s) = iter s" "factor_retires (take_step s) = factor_retires s"
    "iter (damped_steps se s) = iter s" "factor_retires (damped_steps se s) = factor_retires s"
    "iter (corrector_rhs s) = iter s" "factor_retires (corrector_rhs s) = factor_retires s"
    "iter (centering a b s) = iter s" "factor_retires (centering a b s) = factor_retires s"
    "iter (predictor_rhs s) = iter s" "factor_retires (predictor_rhs s) = factor_retires s"
    for a b and s :: "('k, 'pc) solver"
    by (simp_all add: take_step_def damped_steps_def corrector_rhs_def centering_def
          predictor_rhs_def Let_def)
  have ip: "iter (ip_step env se s) = iter s"
           "factor_retires (ip_step env se s) = factor_retires s" for s :: "('k, 'pc) solver"
    unfolding ip_step_def Let_def by (simp_all add: ud ur nr ns stages)
  have eq: "iter (eq_step env s) = iter s"
           "factor_retires (eq_step env s) = factor_retires s" for s :: "('k, 'pc) solver"
    unfolding eq_step_def Let_def by (simp_all add: ue ur nr ns)
  let ?s = "relax_reg_limit ((regularized_residuals (loop_top env st))
              \<lparr>iter := iter (regularized_residuals (loop_top env st)) + 1\<rparr>)"
  have s_iter: "iter ?s = iter st + 1" and s_fr: "factor_retires ?s = factor_retires st"
    by (simp_all add: rel reg top)
  have "(iter st' = iter st + 1 \<and> factor_retires st' = 0) \<or>
        (iter st' = iter st \<and> factor_retires st < max_factor_retires se \<and>
         factor_retires st' = factor_retires st + 1)"
  proof (cases "refactorize env se ?s")
    case (Factor_ok s3)
    then have "iter s3 = iter st + 1 \<and> factor_retires s3 = 0"
      using s_iter by (auto simp: refactorize_def Let_def split: if_splits)
    moreover have "st' = (if data_m (m_data s3) + n_lb (m_data s3) + n_ub (m_data s3) > 0
                          then ip_step env se s3 else eq_step env s3)"
      using c Factor_ok by (auto simp: outer_iteration_def Let_def split: if_splits)
    ultimately show ?thesis by (simp add: ip eq)
  next
    case (Factor_retry s3)
    then have "iter s3 = iter st \<and> factor_retires st < max_factor_retires se \<and>
               factor_retires s3 = factor_retires st + 1"
      using s_iter s_fr by (auto simp: refactorize_def Let_def split: if_splits)
    moreover have "st' = s3"
      using c Factor_retry by (simp add: outer_iteration_def Let_def split: if_splits)
    ultimately show ?thesis by simp
  next
    case (Factor_failed s3)
    then show ?thesis
      using c by (simp add: outer_iteration_def Let_def split: if_splits)
  qed
  then show "((env, se, st'), (env, se, st))
      \<in> measures [\<lambda>(env, se, st). nat (max_iter se - iter st),
                   \<lambda>(env, se, st). nat (max_factor_retires se - factor_retires st)]"
    using lt by auto
qed

declare main_loop.simps [simp del]

section \<open>The solve\<close>

text \<open>
  The start of \<open>solve_impl\<close> after the two checks: the assignments to \<open>m_result.info\<close> and
  the block guarded by \<open>!m_kkt_init_state\<close>.
\<close>

definition prepare_solve :: "('k, 'pc) env \<Rightarrow> settings \<Rightarrow> ('k, 'pc) solver \<Rightarrow> ('k, 'pc) solver" where
  "prepare_solve env se st =
     (let st1 = reset_info se st
      in if \<not> m_kkt_init_state st1 then reset_scalings env se st1 else st1)"

definition solve_impl :: "('k, 'pc) env \<Rightarrow> settings \<Rightarrow> ('k, 'pc) solver \<Rightarrow> ('k, 'pc) solver" where
  "solve_impl env se st =
     (if \<not> m_setup_done st then st\<lparr>status := PIQP_UNSOLVED\<rparr>
      else if \<not> verify_settings env se then st\<lparr>status := PIQP_INVALID_SETTINGS\<rparr>
      else
        let r = initial_factorize env se (prepare_solve env se st)
        in if \<not> fst r then snd r
           else main_loop env se (init_prox (initial_point (initial_solve env (snd r)))))"

definition unscale_results :: "('k, 'pc) env \<Rightarrow> ('k, 'pc) solver \<Rightarrow> ('k, 'pc) solver" where
  "unscale_results env st =
     (let d = m_data st; pc = m_preconditioner st
      in st\<lparr>res_x := unscale_primal env pc (res_x st),
            res_y := unscale_dual_eq env pc (res_y st),
            res_z := unscale_dual_ineq env pc (res_z st),
            res_z_lb := head_upd (n_lb d) (unscale_dual_lb env pc (take (n_lb d) (res_z_lb st))) (res_z_lb st),
            res_z_ub := head_upd (n_ub d) (unscale_dual_ub env pc (take (n_ub d) (res_z_ub st))) (res_z_ub st),
            res_s := unscale_slack_ineq env pc (res_s st),
            res_s_lb := head_upd (n_lb d) (unscale_slack_lb env pc (take (n_lb d) (res_s_lb st))) (res_s_lb st),
            res_s_ub := head_upd (n_ub d) (unscale_slack_ub env pc (take (n_ub d) (res_s_ub st))) (res_s_ub st),
            res_zeta := unscale_primal env pc (res_zeta st),
            res_lambda := unscale_dual_eq env pc (res_lambda st),
            res_nu := unscale_dual_ineq env pc (res_nu st),
            res_nu_lb := head_upd (n_lb d) (unscale_dual_lb env pc (take (n_lb d) (res_nu_lb st))) (res_nu_lb st),
            res_nu_ub := head_upd (n_ub d) (unscale_dual_ub env pc (take (n_ub d) (res_nu_ub st))) (res_nu_ub st)\<rparr>)"

text \<open>
  \<open>std::swap(v(i), v(j))\<close>, and one pass of each of the two loops of \<open>restore_box_dual\<close>.
\<close>

definition swap_entries :: "nat \<Rightarrow> nat \<Rightarrow> 'a list \<Rightarrow> 'a list" where
  "swap_entries i j v = v[i := v ! j, j := v ! i]"

definition swap_lb :: "nat \<Rightarrow> ('k, 'pc) solver \<Rightarrow> ('k, 'pc) solver" where
  "swap_lb i st =
     st\<lparr>res_z_lb := swap_entries i (x_lb_idx (m_data st) ! i) (res_z_lb st),
        res_s_lb := swap_entries i (x_lb_idx (m_data st) ! i) (res_s_lb st),
        res_nu_lb := swap_entries i (x_lb_idx (m_data st) ! i) (res_nu_lb st)\<rparr>"

definition swap_ub :: "nat \<Rightarrow> ('k, 'pc) solver \<Rightarrow> ('k, 'pc) solver" where
  "swap_ub i st =
     st\<lparr>res_z_ub := swap_entries i (x_ub_idx (m_data st) ! i) (res_z_ub st),
        res_s_ub := swap_entries i (x_ub_idx (m_data st) ! i) (res_s_ub st),
        res_nu_ub := swap_entries i (x_ub_idx (m_data st) ! i) (res_nu_ub st)\<rparr>"

text \<open>
  \<open>restore_box_dual\<close>.  The real numbers have no \<open>std::numeric_limits<T>::infinity()\<close>; the
  value written to the tails of the slacks is the parameter \<open>infty\<close>.
\<close>

definition restore_box_dual :: "real \<Rightarrow> ('k, 'pc) solver \<Rightarrow> ('k, 'pc) solver" where
  "restore_box_dual infty st =
     (let d = m_data st;
          st = st\<lparr>res_z_lb := tail_setConstant (data_n d - n_lb d) 0 (res_z_lb st),
                  res_z_ub := tail_setConstant (data_n d - n_ub d) 0 (res_z_ub st),
                  res_s_lb := tail_setConstant (data_n d - n_lb d) infty (res_s_lb st),
                  res_s_ub := tail_setConstant (data_n d - n_ub d) infty (res_s_ub st),
                  res_nu_lb := tail_setConstant (data_n d - n_lb d) 0 (res_nu_lb st),
                  res_nu_ub := tail_setConstant (data_n d - n_ub d) 0 (res_nu_ub st)\<rparr>;
          st = fold swap_lb (rev [0..<n_lb d]) st
      in fold swap_ub (rev [0..<n_ub d]) st)"

text \<open>
  \<open>solve\<close>: the inner solve, then the unscaling and the permutation of the bound duals,
  whatever the status.  Printing and timing are left out.
\<close>

definition solve :: "('k, 'pc) env \<Rightarrow> settings \<Rightarrow> real \<Rightarrow> ('k, 'pc) solver \<Rightarrow> Status \<times> ('k, 'pc) solver" where
  "solve env se infty st =
     (let st1 = solve_impl env se st;
          status_ret = status st1;
          st2 = unscale_results env st1;
          st3 = restore_box_dual infty st2
      in (status_ret, st3))"


section \<open>Auxiliary notions for the statements\<close>

text \<open>
  The loop of \<open>restore_box_dual\<close> on one vector: the swaps for \<open>i = k - 1\<close> down to \<open>0\<close>.
\<close>

definition swap_back :: "nat list \<Rightarrow> nat \<Rightarrow> 'a list \<Rightarrow> 'a list" where
  "swap_back idx k v = fold (\<lambda>i w. swap_entries i (idx ! i) w) (rev [0..<k]) v"

text \<open>
  What setup guarantees for an index map: the first \<open>k\<close> entries are below \<open>n\<close> and
  strictly increasing.
\<close>

definition increasing_prefix :: "nat \<Rightarrow> nat \<Rightarrow> nat list \<Rightarrow> bool" where
  "increasing_prefix n k idx \<longleftrightarrow>
     k \<le> n \<and> (\<forall>i<k. idx ! i < n) \<and> (\<forall>j<k. \<forall>i<j. idx ! i < idx ! j)"

definition box_layout :: "data \<Rightarrow> bool" where
  "box_layout d \<longleftrightarrow>
     increasing_prefix (data_n d) (n_lb d) (x_lb_idx d) \<and>
     increasing_prefix (data_n d) (n_ub d) (x_ub_idx d)"

definition box_duals_sized :: "('k, 'pc) solver \<Rightarrow> bool" where
  "box_duals_sized st \<longleftrightarrow>
     length (res_z_lb st) = data_n (m_data st) \<and> length (res_s_lb st) = data_n (m_data st) \<and>
     length (res_nu_lb st) = data_n (m_data st) \<and> length (res_z_ub st) = data_n (m_data st) \<and>
     length (res_s_ub st) = data_n (m_data st) \<and> length (res_nu_ub st) = data_n (m_data st)"

section \<open>A small instance\<close>

text \<open>
  An instance on which the model is evaluated: two variables, one equality, one inequality,
  a lower bound on the second and an upper bound on the first variable.  Its KKT operator
  fails to factorise as many times as its state says and returns fixed directions; its
  preconditioner scales the primal variables by two and nothing else.
\<close>

definition demo_settings :: settings where
  "demo_settings =
     \<lparr>rho_init = 1 / 10 ^ 6, delta_init = 1 / 10 ^ 4, feas_tol_abs = 1 / 10 ^ 8,
      feas_tol_rel = 1 / 10 ^ 9, dual_tol = 1 / 10 ^ 8, reg_lower_limit = 1 / 10 ^ 10,
      max_iter = 250, max_factor_retires = 10, preconditioner_iter = 10, tau = 99 / 100\<rparr>"

definition demo_env :: "(nat, unit) env" where
  "demo_env =
     \<lparr>verify_settings = (\<lambda>se. 0 < tau se \<and> tau se < 1),
      kkt_init = (\<lambda>d r dl k. k),
      kkt_update_scalings = (\<lambda>d r dl s s_lb s_ub z z_lb z_ub k. k),
      kkt_factorize = (\<lambda>d k. (k = 0, k - 1)),
      kkt_solve = (\<lambda>d k rhs out.
         (\<lparr>blk_x = setConstant 1 (blk_x out), blk_y = setConstant 1 (blk_y out),
           blk_z = setConstant (- 1) (blk_z out), blk_z_lb = setConstant 1 (blk_z_lb out),
           blk_z_ub = setConstant (- 2) (blk_z_ub out), blk_s = setConstant (- 2) (blk_s out),
           blk_s_lb = setConstant (- 1) (blk_s_lb out), blk_s_ub = setConstant 1 (blk_s_ub out)\<rparr>, k)),
      precond_init = (\<lambda>d pc. pc),
      scale_data = (\<lambda>d reuse it pc. (d, pc)),
      unscale_primal = (\<lambda>pc v. smul 2 v), unscale_dual_eq = (\<lambda>pc v. v), unscale_dual_ineq = (\<lambda>pc v. v),
      unscale_dual_lb = (\<lambda>pc v. v), unscale_dual_ub = (\<lambda>pc v. v), unscale_slack_ineq = (\<lambda>pc v. v),
      unscale_slack_lb = (\<lambda>pc v. v), unscale_slack_ub = (\<lambda>pc v. v),
      unscale_primal_res_eq = (\<lambda>pc v. v), unscale_primal_res_ineq = (\<lambda>pc v. v),
      unscale_primal_res_lb = (\<lambda>pc v. v), unscale_primal_res_ub = (\<lambda>pc v. v),
      unscale_dual_res = (\<lambda>pc v. v)\<rparr>"

definition blank_data :: data where
  "blank_data =
     \<lparr>data_n = 0, data_p = 0, data_m = 0, n_lb = 0, n_ub = 0, P_utri = [], AT = [], GT = [],
      data_c = [], data_b = [], data_h = [], x_lb_n = [], x_ub = [], x_lb_idx = [], x_ub_idx = []\<rparr>"

definition blank_solver :: "nat \<Rightarrow> (nat, unit) solver" where
  "blank_solver k =
     \<lparr>m_data = blank_data, m_preconditioner = (), m_kkt = k, m_kkt_init_state = False,
      m_setup_done = False,
      res_x = [], res_y = [], res_z = [], res_z_lb = [], res_z_ub = [], res_s = [], res_s_lb = [],
      res_s_ub = [], res_zeta = [], res_lambda = [], res_nu = [], res_nu_lb = [], res_nu_ub = [],
      status = PIQP_UNSOLVED, iter = 0, rho = 0, delta = 0, mu = 0, sigma = 0, primal_step = 0,
      dual_step = 0, primal_inf = 0, dual_inf = 0, reg_limit = 0, factor_retires = 0,
      no_primal_update = 0, no_dual_update = 0,
      rx = [], ry = [], rz = [], rz_lb = [], rz_ub = [], rs = [], rs_lb = [], rs_ub = [],
      rx_nr = [], ry_nr = [], rz_nr = [], rz_lb_nr = [], rz_ub_nr = [],
      dx = [], dy = [], dz = [], dz_lb = [], dz_ub = [], ds = [], ds_lb = [], ds_ub = [],
      primal_rel_inf = 0, dual_rel_inf = 0\<rparr>"

definition demo_setup :: "nat \<Rightarrow> (nat, unit) solver" where
  "demo_setup k =
     setup_impl demo_env demo_settings [[2, 1], [1, 3]] [- 1, - 2] [[1, 1]] [1] [[1, 0]] [4]
       (Some [- (10 ^ 30), 0]) (Some [5, 10 ^ 30]) (blank_solver k)"

text \<open>The state that \<open>setup_impl\<close> produces on this instance, written out.\<close>

definition demo_data :: data where
  "demo_data =
     \<lparr>data_n = 2, data_p = 1, data_m = 1, n_lb = 1, n_ub = 1,
      P_utri = [[2, 1], [0, 3]], AT = [[1], [1]], GT = [[1], [0]],
      data_c = [- 1, - 2], data_b = [1], data_h = [4],
      x_lb_n = [0, 0], x_ub = [5, 0], x_lb_idx = [1, 0], x_ub_idx = [0, 0]\<rparr>"

definition demo_state :: "nat \<Rightarrow> (nat, unit) solver" where
  "demo_state k =
     \<lparr>m_data = demo_data, m_preconditioner = (), m_kkt = k, m_kkt_init_state = True,
      m_setup_done = True,
      res_x = [0, 0], res_y = [0], res_z = [0], res_z_lb = [0, 0], res_z_ub = [0, 0], res_s = [0],
      res_s_lb = [0, 0], res_s_ub = [0, 0], res_zeta = [0, 0], res_lambda = [0], res_nu = [0],
      res_nu_lb = [0, 0], res_nu_ub = [0, 0],
      status = PIQP_UNSOLVED, iter = 0, rho = 1 / 10 ^ 6, delta = 1 / 10 ^ 4, mu = 0, sigma = 0,
      primal_step = 0, dual_step = 0, primal_inf = 0, dual_inf = 0, reg_limit = 0,
      factor_retires = 0, no_primal_update = 0, no_dual_update = 0,
      rx = [0, 0], ry = [0], rz = [0], rz_lb = [0, 0], rz_ub = [0, 0], rs = [0], rs_lb = [0, 0],
      rs_ub = [0, 0],
      rx_nr = [0, 0], ry_nr = [0], rz_nr = [0], rz_lb_nr = [0, 0], rz_ub_nr = [0, 0],
      dx = [0, 0], dy = [0], dz = [0], dz_lb = [0, 0], dz_ub = [0, 0], ds = [0], ds_lb = [0, 0],
      ds_ub = [0, 0],
      primal_rel_inf = 0, dual_rel_inf = 0\<rparr>"

section \<open>The tests of the outer loop in the words of the specification\<close>

text \<open>
  The infinity norm as the specification means it: the largest absolute value of an entry,
  \<open>0\<close> for the empty vector.  The maximum of several norms is the maximum of their set.
\<close>

definition inf_norm :: "vec \<Rightarrow> real" where
  "inf_norm v = (if v = [] then 0 else Max (set (map abs v)))"

definition primal_inf_spec :: "('k, 'pc) env \<Rightarrow> ('k, 'pc) solver \<Rightarrow> real" where
  "primal_inf_spec env st =
     Max {inf_norm (unscale_primal_res_eq env (m_preconditioner st) (ry_nr st)),
          inf_norm (unscale_primal_res_ineq env (m_preconditioner st) (rz_nr st)),
          inf_norm (unscale_primal_res_lb env (m_preconditioner st) (take (n_lb (m_data st)) (rz_lb_nr st))),
          inf_norm (unscale_primal_res_ub env (m_preconditioner st) (take (n_ub (m_data st)) (rz_ub_nr st)))}"

definition dual_inf_spec :: "('k, 'pc) env \<Rightarrow> ('k, 'pc) solver \<Rightarrow> real" where
  "dual_inf_spec env st = inf_norm (unscale_dual_res env (m_preconditioner st) (rx_nr st))"

definition converged_spec :: "('k, 'pc) env \<Rightarrow> settings \<Rightarrow> ('k, 'pc) solver \<Rightarrow> bool" where
  "converged_spec env se st \<longleftrightarrow>
     primal_inf_spec env st < feas_tol_abs se + feas_tol_rel se * primal_rel_inf st \<and>
     dual_inf_spec env st < feas_tol_abs se + feas_tol_rel se * dual_rel_inf st \<and>
     mu st < dual_tol se"

text \<open>
  The dual proximal gap and the norm of the regularised primal residuals, and the two
  infeasibility conditions built from them.
\<close>

definition dual_prox_spec :: "('k, 'pc) env \<Rightarrow> ('k, 'pc) solver \<Rightarrow> real" where
  "dual_prox_spec env st =
     Max {inf_norm (unscale_dual_eq env (m_preconditioner st) (vsub (res_lambda st) (res_y st))),
          inf_norm (unscale_dual_ineq env (m_preconditioner st) (vsub (res_nu st) (res_z st))),
          inf_norm (unscale_dual_lb env (m_preconditioner st)
                      (vsub (take (n_lb (m_data st)) (res_nu_lb st)) (take (n_lb (m_data st)) (res_z_lb st)))),
          inf_norm (unscale_dual_ub env (m_preconditioner st)
                      (vsub (take (n_ub (m_data st)) (res_nu_ub st)) (take (n_ub (m_data st)) (res_z_ub st))))}"

definition reg_residual_spec :: "('k, 'pc) env \<Rightarrow> ('k, 'pc) solver \<Rightarrow> real" where
  "reg_residual_spec env st =
     Max {inf_norm (unscale_primal_res_eq env (m_preconditioner st) (ry st)),
          inf_norm (unscale_primal_res_ineq env (m_preconditioner st) (rz st)),
          inf_norm (unscale_primal_res_lb env (m_preconditioner st) (take (n_lb (m_data st)) (rz_lb st))),
          inf_norm (unscale_primal_res_ub env (m_preconditioner st) (take (n_ub (m_data st)) (rz_ub st)))}"

definition primal_infeasible_spec :: "('k, 'pc) env \<Rightarrow> settings \<Rightarrow> ('k, 'pc) solver \<Rightarrow> bool" where
  "primal_infeasible_spec env se st \<longleftrightarrow>
     no_dual_update st > 5 \<and> dual_prox_spec env st > 10 ^ 10 \<and> reg_residual_spec env st < feas_tol_abs se"

definition dual_infeasible_spec :: "('k, 'pc) env \<Rightarrow> settings \<Rightarrow> ('k, 'pc) solver \<Rightarrow> bool" where
  "dual_infeasible_spec env se st \<longleftrightarrow>
     no_primal_update st > 5 \<and>
     inf_norm (unscale_primal env (m_preconditioner st) (vsub (res_x st) (res_zeta st))) > 10 ^ 10 \<and>
     inf_norm (unscale_dual_res env (m_preconditioner st) (rx st)) < feas_tol_abs se"

text \<open>
  The state in which the tests of a pass are made: the non-regularised residuals are
  recomputed in the first pass and are those of the previous pass afterwards; the
  infeasibility tests see the regularised residuals formed after the convergence test.
\<close>

definition residual_state :: "('k, 'pc) env \<Rightarrow> ('k, 'pc) solver \<Rightarrow> ('k, 'pc) solver" where
  "residual_state env st = (if iter st = 0 then update_nr_residuals env st else st)"

definition regularized_state :: "('k, 'pc) env \<Rightarrow> ('k, 'pc) solver \<Rightarrow> ('k, 'pc) solver" where
  "regularized_state env st = regularized_residuals (loop_top env st)"

text \<open>
  \<open>loop_reaches env se st st'\<close>: the outer loop started in \<open>st\<close> arrives at its loop test
  in \<open>st'\<close>.
\<close>

inductive loop_reaches :: "('k, 'pc) env \<Rightarrow> settings \<Rightarrow> ('k, 'pc) solver \<Rightarrow> ('k, 'pc) solver \<Rightarrow> bool"
  for env :: "('k, 'pc) env" and se :: settings where
  here: "loop_reaches env se st st"
| pass: "iter st < max_iter se \<Longrightarrow> outer_iteration env se st = Continue st1 \<Longrightarrow>
         loop_reaches env se st1 st2 \<Longrightarrow> loop_reaches env se st st2"

text \<open>
  A solve enters the outer loop when both checks pass and the first factorisation loop ends
  with a success; \<open>loop_entry\<close> is the state in which it does.
\<close>

definition enters_loop :: "('k, 'pc) env \<Rightarrow> settings \<Rightarrow> ('k, 'pc) solver \<Rightarrow> bool" where
  "enters_loop env se st \<longleftrightarrow>
     m_setup_done st \<and> verify_settings env se \<and>
     fst (initial_factorize env se (prepare_solve env se st))"

definition loop_entry :: "('k, 'pc) env \<Rightarrow> settings \<Rightarrow> ('k, 'pc) solver \<Rightarrow> ('k, 'pc) solver" where
  "loop_entry env se st =
     init_prox (initial_point (initial_solve env (snd (initial_factorize env se (prepare_solve env se st)))))"

text \<open>The status with which a pass of the loop returns, if it returns.\<close>

definition pass_status :: "('k, 'pc) env \<Rightarrow> settings \<Rightarrow> ('k, 'pc) solver \<Rightarrow> Status option" where
  "pass_status env se st =
     (case outer_iteration env se st of Return s \<Rightarrow> Some (status s) | Continue s \<Rightarrow> None)"


section \<open>Compressed bound lists\<close>










section \<open>Restoring the bound duals\<close>

lemma increasing_ge:
  assumes "\<forall>i j. i < j \<and> j < k \<longrightarrow> idx ! i < (idx ! j :: nat)" "i < k"
  shows "i \<le> idx ! i"
  using assms(2)
proof (induction i)
  case 0
  then show ?case by simp
next
  case (Suc i)
  then have "i \<le> idx ! i" by simp
  moreover have "idx ! i < idx ! Suc i" using assms(1) Suc.prems by simp
  ultimately show ?case by simp
qed

lemma increasing_fixpoint_below:
  assumes inc: "\<forall>i j. i < j \<and> j < Suc k \<longrightarrow> idx ! i < (idx ! j :: nat)" and "idx ! k = k" and "j < k"
  shows "idx ! j = j"
proof -
  have "idx ! (k - d) \<le> k - d" if "d \<le> k" for d
    using that
  proof (induction d)
    case 0
    then show ?case using assms(2) by simp
  next
    case (Suc d)
    then have "idx ! (k - d) \<le> k - d" by simp
    moreover have "k - Suc d < k - d \<and> k - d < Suc k" using Suc.prems by arith
    then have "idx ! (k - Suc d) < idx ! (k - d)" by (rule inc[rule_format])
    ultimately show ?case by simp
  qed
  from this[of "k - j"] have "idx ! j \<le> j" using assms(3) by simp
  moreover have "j \<le> idx ! j" using increasing_ge[OF inc, of j] assms(3) by simp
  ultimately show ?thesis by simp
qed

lemma length_swap_entries [simp]: "length (swap_entries i j v) = length v"
  by (simp add: swap_entries_def)

lemma nth_swap_entries:
  "i < length v \<Longrightarrow> j < length v \<Longrightarrow> q < length v \<Longrightarrow>
   swap_entries i j v ! q = (if q = j then v ! i else if q = i then v ! j else v ! q)"
  by (simp add: swap_entries_def nth_list_update)

lemma swap_back_Suc: "swap_back idx (Suc k) v = swap_back idx k (swap_entries k (idx ! k) v)"
  by (simp add: swap_back_def)

lemma length_swap_back [simp]: "length (swap_back idx k v) = length v"
  by (induction k arbitrary: v) (simp_all add: swap_back_Suc, simp add: swap_back_def)

lemma swap_back_spec:
  assumes "\<forall>i j. i < j \<and> j < k \<longrightarrow> idx ! i < (idx ! j :: nat)"
    and "\<forall>i<k. idx ! i < length v" and "k \<le> length v"
  shows "(\<forall>i<k. swap_back idx k v ! (idx ! i) = v ! i) \<and>
         (\<forall>j<length v. k \<le> j \<and> j \<notin> (\<lambda>i. idx ! i) ` {..<k} \<longrightarrow> swap_back idx k v ! j = v ! j) \<and>
         (\<forall>j<k. j \<notin> (\<lambda>i. idx ! i) ` {..<k} \<longrightarrow>
             (\<exists>q<length v. k \<le> q \<and> q \<in> (\<lambda>i. idx ! i) ` {..<k} \<and> swap_back idx k v ! j = v ! q))"
  using assms
proof (induction k arbitrary: v)
  case 0
  then show ?case by (simp add: swap_back_def)
next
  case (Suc k)
  let ?p = "idx ! k"
  let ?v' = "swap_entries k ?p v"
  let ?w = "swap_back idx k ?v'"
  have inc: "\<forall>i j. i < j \<and> j < Suc k \<longrightarrow> idx ! i < idx ! j" using Suc.prems(1) .
  have inc': "\<forall>i j. i < j \<and> j < k \<longrightarrow> idx ! i < idx ! j" using inc by simp
  have kp: "k \<le> ?p" using increasing_ge[OF inc, of k] by simp
  have pl: "?p < length v" and kl: "k < length v" using Suc.prems by auto
  have below: "idx ! i < ?p" if "i < k" for i using inc that by simp
  have pnot: "?p \<notin> (\<lambda>i. idx ! i) ` {..<k}" using below by force
  have ih: "(\<forall>i<k. ?w ! (idx ! i) = ?v' ! i) \<and>
         (\<forall>j<length ?v'. k \<le> j \<and> j \<notin> (\<lambda>i. idx ! i) ` {..<k} \<longrightarrow> ?w ! j = ?v' ! j) \<and>
         (\<forall>j<k. j \<notin> (\<lambda>i. idx ! i) ` {..<k} \<longrightarrow>
             (\<exists>q<length ?v'. k \<le> q \<and> q \<in> (\<lambda>i. idx ! i) ` {..<k} \<and> ?w ! j = ?v' ! q))"
    using Suc.IH[of ?v'] inc' Suc.prems by simp
  have img: "(\<lambda>i. idx ! i) ` {..<Suc k} = insert ?p ((\<lambda>i. idx ! i) ` {..<k})"
    by (simp add: lessThan_Suc)
  have a: "\<forall>i<Suc k. ?w ! (idx ! i) = v ! i"
  proof (intro allI impI)
    fix i assume i: "i < Suc k"
    show "?w ! (idx ! i) = v ! i"
    proof (cases "i = k")
      case True
      have "?w ! ?p = ?v' ! ?p" using ih pl kp pnot by simp
      also have "\<dots> = v ! k" using pl kl by (simp add: nth_swap_entries)
      finally show ?thesis using True by simp
    next
      case False
      then have ik: "i < k" using i by simp
      then have "?w ! (idx ! i) = ?v' ! i" using ih by simp
      also have "\<dots> = v ! i" using ik kp pl kl by (simp add: nth_swap_entries)
      finally show ?thesis .
    qed
  qed
  have b: "\<forall>j<length v. Suc k \<le> j \<and> j \<notin> (\<lambda>i. idx ! i) ` {..<Suc k} \<longrightarrow> ?w ! j = v ! j"
  proof (intro allI impI)
    fix j assume j: "j < length v" and h: "Suc k \<le> j \<and> j \<notin> (\<lambda>i. idx ! i) ` {..<Suc k}"
    then have "?w ! j = ?v' ! j" using ih img by simp
    also have "\<dots> = v ! j" using j h pl kl img by (simp add: nth_swap_entries)
    finally show "?w ! j = v ! j" .
  qed
  have c: "\<forall>j<Suc k. j \<notin> (\<lambda>i. idx ! i) ` {..<Suc k} \<longrightarrow>
             (\<exists>q<length v. Suc k \<le> q \<and> q \<in> (\<lambda>i. idx ! i) ` {..<Suc k} \<and> ?w ! j = v ! q)"
  proof (intro allI impI)
    fix j assume j: "j < Suc k" and h: "j \<notin> (\<lambda>i. idx ! i) ` {..<Suc k}"
    have jn: "j \<notin> (\<lambda>i. idx ! i) ` {..<k}" and jp: "j \<noteq> ?p" using h img by auto
    have pk: "?p \<noteq> k"
    proof
      assume e: "?p = k"
      show False
      proof (cases "j = k")
        case True
        then show ?thesis using jp e by simp
      next
        case False
        then have "j < k" using j by simp
        then have "idx ! j = j" using increasing_fixpoint_below[OF inc e] by simp
        then show ?thesis using jn \<open>j < k\<close> by force
      qed
    qed
    then have pgt: "Suc k \<le> ?p" using kp by simp
    show "\<exists>q<length v. Suc k \<le> q \<and> q \<in> (\<lambda>i. idx ! i) ` {..<Suc k} \<and> ?w ! j = v ! q"
    proof (cases "j = k")
      case True
      have "?w ! k = ?v' ! k" using ih kl jn True by simp
      also have "\<dots> = v ! ?p" using pl kl pk by (simp add: nth_swap_entries)
      finally show ?thesis using True pl pgt img by auto
    next
      case False
      then have "j < k" using j by simp
      then obtain q where q: "q < length v" "k \<le> q" "q \<in> (\<lambda>i. idx ! i) ` {..<k}" "?w ! j = ?v' ! q"
        using ih jn by auto
      have qp: "q \<noteq> ?p" using q(3) pnot by blast
      show ?thesis
      proof (cases "q = k")
        case True
        then have "?v' ! q = v ! ?p" using pl kl pk by (simp add: nth_swap_entries)
        then show ?thesis using q pl pgt img by auto
      next
        case False
        then have "?v' ! q = v ! q" using q qp pl kl by (simp add: nth_swap_entries)
        moreover have "Suc k \<le> q" using False q(2) by simp
        ultimately show ?thesis using q img by auto
      qed
    qed
  qed
  show ?case unfolding swap_back_Suc using a b c by blast
qed


lemma fold_swap_lb:
  "m_data (fold swap_lb xs st) = m_data st \<and>
   res_z_lb (fold swap_lb xs st) = fold (\<lambda>i w. swap_entries i (x_lb_idx (m_data st) ! i) w) xs (res_z_lb st) \<and>
   res_s_lb (fold swap_lb xs st) = fold (\<lambda>i w. swap_entries i (x_lb_idx (m_data st) ! i) w) xs (res_s_lb st) \<and>
   res_nu_lb (fold swap_lb xs st) = fold (\<lambda>i w. swap_entries i (x_lb_idx (m_data st) ! i) w) xs (res_nu_lb st) \<and>
   res_z_ub (fold swap_lb xs st) = res_z_ub st \<and> res_s_ub (fold swap_lb xs st) = res_s_ub st \<and>
   res_nu_ub (fold swap_lb xs st) = res_nu_ub st"
  by (induction xs arbitrary: st) (simp_all add: swap_lb_def)

lemma fold_swap_ub:
  "m_data (fold swap_ub xs st) = m_data st \<and>
   res_z_ub (fold swap_ub xs st) = fold (\<lambda>i w. swap_entries i (x_ub_idx (m_data st) ! i) w) xs (res_z_ub st) \<and>
   res_s_ub (fold swap_ub xs st) = fold (\<lambda>i w. swap_entries i (x_ub_idx (m_data st) ! i) w) xs (res_s_ub st) \<and>
   res_nu_ub (fold swap_ub xs st) = fold (\<lambda>i w. swap_entries i (x_ub_idx (m_data st) ! i) w) xs (res_nu_ub st) \<and>
   res_z_lb (fold swap_ub xs st) = res_z_lb st \<and> res_s_lb (fold swap_ub xs st) = res_s_lb st \<and>
   res_nu_lb (fold swap_ub xs st) = res_nu_lb st"
  by (induction xs arbitrary: st) (simp_all add: swap_ub_def)

lemma restore_box_dual_fields:
  "res_z_lb (restore_box_dual infty st) =
     swap_back (x_lb_idx (m_data st)) (n_lb (m_data st))
       (tail_setConstant (data_n (m_data st) - n_lb (m_data st)) 0 (res_z_lb st))"
  "res_s_lb (restore_box_dual infty st) =
     swap_back (x_lb_idx (m_data st)) (n_lb (m_data st))
       (tail_setConstant (data_n (m_data st) - n_lb (m_data st)) infty (res_s_lb st))"
  "res_nu_lb (restore_box_dual infty st) =
     swap_back (x_lb_idx (m_data st)) (n_lb (m_data st))
       (tail_setConstant (data_n (m_data st) - n_lb (m_data st)) 0 (res_nu_lb st))"
  "res_z_ub (restore_box_dual infty st) =
     swap_back (x_ub_idx (m_data st)) (n_ub (m_data st))
       (tail_setConstant (data_n (m_data st) - n_ub (m_data st)) 0 (res_z_ub st))"
  "res_s_ub (restore_box_dual infty st) =
     swap_back (x_ub_idx (m_data st)) (n_ub (m_data st))
       (tail_setConstant (data_n (m_data st) - n_ub (m_data st)) infty (res_s_ub st))"
  "res_nu_ub (restore_box_dual infty st) =
     swap_back (x_ub_idx (m_data st)) (n_ub (m_data st))
       (tail_setConstant (data_n (m_data st) - n_ub (m_data st)) 0 (res_nu_ub st))"
  by (simp_all add: restore_box_dual_def Let_def fold_swap_lb fold_swap_ub swap_back_def)

lemma length_tail_setConstant [simp]: "length (tail_setConstant k c v) = length v"
  by (simp add: tail_setConstant_def setConstant_def)

lemma nth_tail_setConstant:
  "k \<le> length v \<Longrightarrow> i < length v \<Longrightarrow>
   tail_setConstant (length v - k) c v ! i = (if i < k then v ! i else c)"
  by (simp add: tail_setConstant_def setConstant_def nth_append)

text \<open>The layout law for one vector: compressed head, constant tail, swapped back.\<close>

lemma restore_vector:
  assumes inc: "\<forall>i j. i < j \<and> j < k \<longrightarrow> idx ! i < (idx ! j :: nat)"
    and bnd: "\<forall>i<k. idx ! i < length v" and k: "k \<le> length v"
  shows "(\<forall>i<k. swap_back idx k (tail_setConstant (length v - k) c v) ! (idx ! i) = v ! i) \<and>
         (\<forall>j<length v. j \<notin> (\<lambda>i. idx ! i) ` {..<k} \<longrightarrow>
              swap_back idx k (tail_setConstant (length v - k) c v) ! j = c)"
proof -
  let ?u = "tail_setConstant (length v - k) c v"
  have sp: "(\<forall>i<k. swap_back idx k ?u ! (idx ! i) = ?u ! i) \<and>
         (\<forall>j<length ?u. k \<le> j \<and> j \<notin> (\<lambda>i. idx ! i) ` {..<k} \<longrightarrow> swap_back idx k ?u ! j = ?u ! j) \<and>
         (\<forall>j<k. j \<notin> (\<lambda>i. idx ! i) ` {..<k} \<longrightarrow>
             (\<exists>q<length ?u. k \<le> q \<and> q \<in> (\<lambda>i. idx ! i) ` {..<k} \<and> swap_back idx k ?u ! j = ?u ! q))"
    by (rule swap_back_spec) (use inc bnd k in simp_all)
  have head: "?u ! i = v ! i" if "i < k" for i
    using that k by (simp add: nth_tail_setConstant)
  have tail: "?u ! q = c" if "k \<le> q" "q < length v" for q
    using that k by (simp add: nth_tail_setConstant)
  show ?thesis
  proof (intro conjI allI impI)
    fix i assume "i < k"
    then show "swap_back idx k ?u ! (idx ! i) = v ! i" using sp head by simp
  next
    fix j assume j: "j < length v" and n: "j \<notin> (\<lambda>i. idx ! i) ` {..<k}"
    show "swap_back idx k ?u ! j = c"
    proof (cases "k \<le> j")
      case True
      then have "swap_back idx k ?u ! j = ?u ! j" using sp j n by simp
      then show ?thesis using tail True j by simp
    next
      case False
      then obtain q where "q < length ?u" "k \<le> q" "swap_back idx k ?u ! j = ?u ! q"
        using sp n by (meson not_le)
      then show ?thesis using tail by simp
    qed
  qed
qed

text \<open>
  Claim C9.  After \<open>solve\<close>, each of \<open>z_lb\<close>, \<open>nu_lb\<close> (tail \<open>0\<close>) and \<open>s_lb\<close> (tail
  \<open>+infinity\<close>) holds the \<open>i\<close>-th compressed value of the unscaled result at position
  \<open>x_lb_idx[i]\<close>, and the tail value everywhere else; the vectors come from the swaps for
  \<open>i = n_lb - 1\<close> down to \<open>0\<close>.  The same holds for the upper bounds.
\<close>

theorem restore_box_dual_natural_order:
  assumes lay: "box_layout (m_data (unscale_results env (solve_impl env se st)))"
    and sz: "box_duals_sized (unscale_results env (solve_impl env se st))"
  shows "(let st2 = unscale_results env (solve_impl env se st);
              st3 = snd (solve env se infty st);
              d = m_data st2
          in st3 = restore_box_dual infty st2 \<and>
             res_z_lb st3 = fold (\<lambda>i w. swap_entries i (x_lb_idx d ! i) w) (rev [0..<n_lb d])
                              (tail_setConstant (data_n d - n_lb d) 0 (res_z_lb st2)) \<and>
             res_z_ub st3 = fold (\<lambda>i w. swap_entries i (x_ub_idx d ! i) w) (rev [0..<n_ub d])
                              (tail_setConstant (data_n d - n_ub d) 0 (res_z_ub st2)) \<and>
             (\<forall>i<n_lb d. res_z_lb st3 ! (x_lb_idx d ! i) = res_z_lb st2 ! i \<and>
                          res_nu_lb st3 ! (x_lb_idx d ! i) = res_nu_lb st2 ! i \<and>
                          res_s_lb st3 ! (x_lb_idx d ! i) = res_s_lb st2 ! i) \<and>
             (\<forall>j<data_n d. j \<notin> (\<lambda>i. x_lb_idx d ! i) ` {..<n_lb d} \<longrightarrow>
                          res_z_lb st3 ! j = 0 \<and> res_nu_lb st3 ! j = 0 \<and> res_s_lb st3 ! j = infty) \<and>
             (\<forall>i<n_ub d. res_z_ub st3 ! (x_ub_idx d ! i) = res_z_ub st2 ! i \<and>
                          res_nu_ub st3 ! (x_ub_idx d ! i) = res_nu_ub st2 ! i \<and>
                          res_s_ub st3 ! (x_ub_idx d ! i) = res_s_ub st2 ! i) \<and>
             (\<forall>j<data_n d. j \<notin> (\<lambda>i. x_ub_idx d ! i) ` {..<n_ub d} \<longrightarrow>
                          res_z_ub st3 ! j = 0 \<and> res_nu_ub st3 ! j = 0 \<and> res_s_ub st3 ! j = infty))"
proof -
  define st2 where "st2 = unscale_results env (solve_impl env se st)"
  define d where "d = m_data st2"
  have st3: "snd (solve env se infty st) = restore_box_dual infty st2"
    by (simp add: solve_def Let_def st2_def)
  have len: "length (res_z_lb st2) = data_n d" "length (res_s_lb st2) = data_n d"
    "length (res_nu_lb st2) = data_n d" "length (res_z_ub st2) = data_n d"
    "length (res_s_ub st2) = data_n d" "length (res_nu_ub st2) = data_n d"
    using sz by (simp_all add: box_duals_sized_def st2_def d_def)
  have lb: "n_lb d \<le> data_n d" "\<forall>i<n_lb d. x_lb_idx d ! i < data_n d"
    "\<forall>i j. i < j \<and> j < n_lb d \<longrightarrow> x_lb_idx d ! i < x_lb_idx d ! j"
    and ub: "n_ub d \<le> data_n d" "\<forall>i<n_ub d. x_ub_idx d ! i < data_n d"
    "\<forall>i j. i < j \<and> j < n_ub d \<longrightarrow> x_ub_idx d ! i < x_ub_idx d ! j"
    using lay by (auto simp: box_layout_def increasing_prefix_def st2_def d_def)
  have one_lb: "(\<forall>i<n_lb d. swap_back (x_lb_idx d) (n_lb d) (tail_setConstant (data_n d - n_lb d) c v) ! (x_lb_idx d ! i) = v ! i) \<and>
         (\<forall>j<data_n d. j \<notin> (\<lambda>i. x_lb_idx d ! i) ` {..<n_lb d} \<longrightarrow>
              swap_back (x_lb_idx d) (n_lb d) (tail_setConstant (data_n d - n_lb d) c v) ! j = c)"
    if "length v = data_n d" for v :: vec and c
    using restore_vector[of "n_lb d" "x_lb_idx d" v c] lb that by simp
  have one_ub: "(\<forall>i<n_ub d. swap_back (x_ub_idx d) (n_ub d) (tail_setConstant (data_n d - n_ub d) c v) ! (x_ub_idx d ! i) = v ! i) \<and>
         (\<forall>j<data_n d. j \<notin> (\<lambda>i. x_ub_idx d ! i) ` {..<n_ub d} \<longrightarrow>
              swap_back (x_ub_idx d) (n_ub d) (tail_setConstant (data_n d - n_ub d) c v) ! j = c)"
    if "length v = data_n d" for v :: vec and c
    using restore_vector[of "n_ub d" "x_ub_idx d" v c] ub that by simp
  note f = restore_box_dual_fields[of infty st2, folded d_def]
  have folds: "res_z_lb (restore_box_dual infty st2) =
      fold (\<lambda>i w. swap_entries i (x_lb_idx d ! i) w) (rev [0..<n_lb d])
        (tail_setConstant (data_n d - n_lb d) 0 (res_z_lb st2))"
    "res_z_ub (restore_box_dual infty st2) =
      fold (\<lambda>i w. swap_entries i (x_ub_idx d ! i) w) (rev [0..<n_ub d])
        (tail_setConstant (data_n d - n_ub d) 0 (res_z_ub st2))"
    by (simp_all add: f swap_back_def)
  have lbs: "\<forall>i<n_lb d. res_z_lb (restore_box_dual infty st2) ! (x_lb_idx d ! i) = res_z_lb st2 ! i \<and>
                          res_nu_lb (restore_box_dual infty st2) ! (x_lb_idx d ! i) = res_nu_lb st2 ! i \<and>
                          res_s_lb (restore_box_dual infty st2) ! (x_lb_idx d ! i) = res_s_lb st2 ! i"
    using one_lb[OF len(1), of 0] one_lb[OF len(2), of infty] one_lb[OF len(3), of 0]
    by (simp add: f)
  have lbt: "\<forall>j<data_n d. j \<notin> (\<lambda>i. x_lb_idx d ! i) ` {..<n_lb d} \<longrightarrow>
       res_z_lb (restore_box_dual infty st2) ! j = 0 \<and> res_nu_lb (restore_box_dual infty st2) ! j = 0 \<and>
       res_s_lb (restore_box_dual infty st2) ! j = infty"
    using one_lb[OF len(1), of 0] one_lb[OF len(2), of infty] one_lb[OF len(3), of 0]
    by (simp add: f)
  have ubs: "\<forall>i<n_ub d. res_z_ub (restore_box_dual infty st2) ! (x_ub_idx d ! i) = res_z_ub st2 ! i \<and>
                          res_nu_ub (restore_box_dual infty st2) ! (x_ub_idx d ! i) = res_nu_ub st2 ! i \<and>
                          res_s_ub (restore_box_dual infty st2) ! (x_ub_idx d ! i) = res_s_ub st2 ! i"
    using one_ub[OF len(4), of 0] one_ub[OF len(5), of infty] one_ub[OF len(6), of 0]
    by (simp add: f)
  have ubt: "\<forall>j<data_n d. j \<notin> (\<lambda>i. x_ub_idx d ! i) ` {..<n_ub d} \<longrightarrow>
       res_z_ub (restore_box_dual infty st2) ! j = 0 \<and> res_nu_ub (restore_box_dual infty st2) ! j = 0 \<and>
       res_s_ub (restore_box_dual infty st2) ! j = infty"
    using one_ub[OF len(4), of 0] one_ub[OF len(5), of infty] one_ub[OF len(6), of 0]
    by (simp add: f)
  show ?thesis
    unfolding Let_def st2_def[symmetric] d_def[symmetric] st3
    using folds lbs lbt ubs ubt by blast
qed

lemma demo_setup_state: "demo_setup 0 = demo_state 0"
  by code_simp

theorem restore_box_dual_natural_order_witness:
  "box_layout (m_data (unscale_results demo_env
      (solve_impl demo_env (demo_settings\<lparr>max_iter := 0\<rparr>) (demo_state 0)))) \<and>
   box_duals_sized (unscale_results demo_env
      (solve_impl demo_env (demo_settings\<lparr>max_iter := 0\<rparr>) (demo_state 0))) \<and>
   (let st2 = unscale_results demo_env
                (solve_impl demo_env (demo_settings\<lparr>max_iter := 0\<rparr>) (demo_state 0));
        st3 = snd (solve demo_env (demo_settings\<lparr>max_iter := 0\<rparr>) 1000 (demo_state 0))
    in res_z_lb st3 ! 1 = res_z_lb st2 ! 0 \<and> res_s_lb st3 ! 1 = res_s_lb st2 ! 0 \<and>
       res_z_lb st3 ! 0 = 0 \<and> res_s_lb st3 ! 0 = 1000 \<and>
       res_z_ub st3 ! 0 = res_z_ub st2 ! 0 \<and> res_z_ub st3 ! 1 = 0 \<and> res_s_ub st3 ! 1 = 1000)"
proof -
  let ?se = "demo_settings\<lparr>max_iter := 0\<rparr>"
  let ?st2 = "unscale_results demo_env (solve_impl demo_env ?se (demo_state 0))"
  have lay: "box_layout (m_data ?st2)" by code_simp
  have sz: "box_duals_sized ?st2" by code_simp
  have d: "m_data ?st2 = demo_data" by code_simp
  let ?st3 = "snd (solve demo_env ?se 1000 (demo_state 0))"
  note t = restore_box_dual_natural_order[OF lay sz, of 1000, unfolded Let_def d]
  from t have hl: "\<forall>i<n_lb demo_data. res_z_lb ?st3 ! (x_lb_idx demo_data ! i) = res_z_lb ?st2 ! i \<and>
        res_nu_lb ?st3 ! (x_lb_idx demo_data ! i) = res_nu_lb ?st2 ! i \<and>
        res_s_lb ?st3 ! (x_lb_idx demo_data ! i) = res_s_lb ?st2 ! i"
    by (elim conjE)
  from t have tl: "\<forall>j<data_n demo_data. j \<notin> (\<lambda>i. x_lb_idx demo_data ! i) ` {..<n_lb demo_data} \<longrightarrow>
        res_z_lb ?st3 ! j = 0 \<and> res_nu_lb ?st3 ! j = 0 \<and> res_s_lb ?st3 ! j = 1000"
    by (elim conjE)
  from t have hu: "\<forall>i<n_ub demo_data. res_z_ub ?st3 ! (x_ub_idx demo_data ! i) = res_z_ub ?st2 ! i \<and>
        res_nu_ub ?st3 ! (x_ub_idx demo_data ! i) = res_nu_ub ?st2 ! i \<and>
        res_s_ub ?st3 ! (x_ub_idx demo_data ! i) = res_s_ub ?st2 ! i"
    by (elim conjE)
  from t have tu: "\<forall>j<data_n demo_data. j \<notin> (\<lambda>i. x_ub_idx demo_data ! i) ` {..<n_ub demo_data} \<longrightarrow>
        res_z_ub ?st3 ! j = 0 \<and> res_nu_ub ?st3 ! j = 0 \<and> res_s_ub ?st3 ! j = 1000"
    by (elim conjE)
  have lb0: "res_z_lb ?st3 ! 1 = res_z_lb ?st2 ! 0 \<and> res_s_lb ?st3 ! 1 = res_s_lb ?st2 ! 0"
    using hl[rule_format, of 0] by (simp add: demo_data_def)
  have lb1: "res_z_lb ?st3 ! 0 = 0 \<and> res_s_lb ?st3 ! 0 = 1000"
    using tl[rule_format, of 0] by (simp add: demo_data_def)
  have ub0: "res_z_ub ?st3 ! 0 = res_z_ub ?st2 ! 0"
    using hu[rule_format, of 0] by (simp add: demo_data_def)
  have ub1: "res_z_ub ?st3 ! 1 = 0 \<and> res_s_ub ?st3 ! 1 = 1000"
    using tu[rule_format, of 1] by (simp add: demo_data_def)
  show ?thesis
    unfolding Let_def using lay sz lb0 lb1 ub0 ub1 by blast
qed

section \<open>The post-processing of every solve\<close>

text \<open>
  Claim C10.  Every \<open>solve\<close> applies \<open>unscale_results\<close> and \<open>restore_box_dual\<close> to the state
  that \<open>solve_impl\<close> returns, whatever the status.  When the solver is not set up or the
  settings are invalid, \<open>solve_impl\<close> only writes the status, so the two functions are applied
  once more to the result vectors that the previous solve left.
\<close>

theorem solve_always_postprocesses:
  "solve env se infty st =
     (status (solve_impl env se st),
      restore_box_dual infty (unscale_results env (solve_impl env se st))) \<and>
   (\<not> m_setup_done st \<longrightarrow>
      solve env se infty st =
        (PIQP_UNSOLVED, restore_box_dual infty (unscale_results env (st\<lparr>status := PIQP_UNSOLVED\<rparr>)))) \<and>
   (m_setup_done st \<and> \<not> verify_settings env se \<longrightarrow>
      solve env se infty st =
        (PIQP_INVALID_SETTINGS,
         restore_box_dual infty (unscale_results env (st\<lparr>status := PIQP_INVALID_SETTINGS\<rparr>)))) \<and>
   (fst (solve env se infty st) = PIQP_NUMERICS \<longrightarrow>
      snd (solve env se infty st) =
        restore_box_dual infty (unscale_results env (solve_impl env se st)))"
  by (simp add: solve_def solve_impl_def Let_def)

theorem solve_always_postprocesses_witness:
  "(let st1 = snd (solve demo_env (demo_settings\<lparr>max_iter := 0\<rparr>) 1000 (demo_state 0));
        bad = demo_settings\<lparr>tau := 2\<rparr>
    in m_setup_done st1 \<and> \<not> verify_settings demo_env bad \<and>
       fst (solve demo_env bad 1000 st1) = PIQP_INVALID_SETTINGS \<and>
       res_x (snd (solve demo_env bad 1000 st1)) \<noteq> res_x st1 \<and>
       res_z_lb (snd (solve demo_env bad 1000 st1)) \<noteq> res_z_lb st1)"
proof -
  let ?st1 = "snd (solve demo_env (demo_settings\<lparr>max_iter := 0\<rparr>) 1000 (demo_state 0))"
  let ?bad = "demo_settings\<lparr>tau := 2\<rparr>"
  let ?post = "restore_box_dual 1000 (unscale_results demo_env (?st1\<lparr>status := PIQP_INVALID_SETTINGS\<rparr>))"
  have h: "m_setup_done ?st1" "\<not> verify_settings demo_env ?bad"
    by code_simp+
  from solve_always_postprocesses[of demo_env ?bad 1000 ?st1] h
  have e: "solve demo_env ?bad 1000 ?st1 = (PIQP_INVALID_SETTINGS, ?post)"
    by blast
  have x: "res_x ?post \<noteq> res_x ?st1" by code_simp
  have z: "res_z_lb ?post \<noteq> res_z_lb ?st1" by code_simp
  show ?thesis
    unfolding Let_def e using h x z by simp
qed

section \<open>The outer loop: which status is returned\<close>

lemma lpNorm_inf_fold: "fold (\<lambda>v acc. max acc \<bar>v\<bar>) a m = Max (insert m (set (map abs a)))"
proof (induction a arbitrary: m)
  case Nil
  then show ?case by simp
next
  case (Cons x a)
  have "Max (insert (max m \<bar>x\<bar>) (set (map abs a))) = Max (insert m (insert \<bar>x\<bar> (set (map abs a))))"
    by (cases "a = []") (simp_all add: max.assoc max.commute max.left_commute)
  then show ?case using Cons by simp
qed

lemma lpNorm_inf_spec: "lpNorm_inf v = inf_norm v"
proof (cases "v = []")
  case True
  then show ?thesis by (simp add: lpNorm_inf_def inf_norm_def)
next
  case False
  then obtain x xs where v: "v = x # xs" by (cases v) auto
  have "Max (insert 0 (set (map abs v))) = Max (set (map abs v))"
    unfolding v by (cases "xs = []") (simp_all add: max.absorb2 max.assoc[symmetric])
  then show ?thesis using False by (simp add: lpNorm_inf_def inf_norm_def lpNorm_inf_fold)
qed

lemma max4_Max: "max (max (max a b) c) d = Max {a, b, c, d :: real}"
  by (simp add: max.assoc)

lemma primal_res_norm_spec:
  "primal_res_norm env st v_y v_z v_z_lb v_z_ub =
     Max {inf_norm (unscale_primal_res_eq env (m_preconditioner st) v_y),
          inf_norm (unscale_primal_res_ineq env (m_preconditioner st) v_z),
          inf_norm (unscale_primal_res_lb env (m_preconditioner st) (take (n_lb (m_data st)) v_z_lb)),
          inf_norm (unscale_primal_res_ub env (m_preconditioner st) (take (n_ub (m_data st)) v_z_ub))}"
  unfolding primal_res_norm_def Let_def lpNorm_inf_spec by (rule max4_Max)

lemma dual_prox_inf_norm_spec: "dual_prox_inf_norm env st = dual_prox_spec env st"
  unfolding dual_prox_inf_norm_def dual_prox_spec_def Let_def lpNorm_inf_spec by (rule max4_Max)

lemma refactorize_failed_status:
  "refactorize env se st = Factor_failed s \<Longrightarrow> status s = PIQP_NUMERICS"
  by (auto simp: refactorize_def Let_def split: if_splits)

lemma loop_top_frame:
  "primal_rel_inf (loop_top env st) = primal_rel_inf (residual_state env st)"
  "dual_rel_inf (loop_top env st) = dual_rel_inf (residual_state env st)"
  "mu (loop_top env st) = mu (residual_state env st)"
  "primal_inf (loop_top env st) = primal_inf_spec env (residual_state env st)"
  "dual_inf (loop_top env st) = dual_inf_spec env (residual_state env st)"
  by (simp_all add: loop_top_def residual_state_def compute_infeasibilities_def
        primal_res_norm_spec primal_inf_spec_def dual_inf_spec_def lpNorm_inf_spec)

lemma converged_loop_top:
  "converged se (loop_top env st) \<longleftrightarrow> converged_spec env se (residual_state env st)"
  by (simp add: converged_def converged_spec_def loop_top_frame)

lemma primal_infeasible_iff: "primal_infeasible env se st \<longleftrightarrow> primal_infeasible_spec env se st"
  by (simp add: primal_infeasible_def primal_infeasible_spec_def dual_prox_inf_norm_spec
        primal_res_norm_spec reg_residual_spec_def)

lemma dual_infeasible_iff: "dual_infeasible env se st \<longleftrightarrow> dual_infeasible_spec env se st"
  by (simp add: dual_infeasible_def dual_infeasible_spec_def lpNorm_inf_spec)

text \<open>The status with which a pass returns.\<close>

lemma pass_status_return:
  "pass_status env se st = Some PIQP_SOLVED \<longleftrightarrow>
     converged_spec env se (residual_state env st)"
  "pass_status env se st = Some PIQP_PRIMAL_INFEASIBLE \<longleftrightarrow>
     \<not> converged_spec env se (residual_state env st) \<and>
     primal_infeasible_spec env se (regularized_state env st)"
  "pass_status env se st = Some PIQP_DUAL_INFEASIBLE \<longleftrightarrow>
     \<not> converged_spec env se (residual_state env st) \<and>
     \<not> primal_infeasible_spec env se (regularized_state env st) \<and>
     dual_infeasible_spec env se (regularized_state env st)"
  unfolding converged_loop_top[symmetric] primal_infeasible_iff[symmetric]
    dual_infeasible_iff[symmetric] regularized_state_def pass_status_def
  by (auto simp: outer_iteration_def Let_def dest: refactorize_failed_status
        split: factor_result.splits)

lemma loop_reaches_cases:
  "loop_reaches env se st st2 \<longleftrightarrow>
     st2 = st \<or> (iter st < max_iter se \<and>
       (\<exists>st1. outer_iteration env se st = Continue st1 \<and> loop_reaches env se st1 st2))"
  by (subst loop_reaches.simps) auto

text \<open>
  The loop returns a status other than \<open>PIQP_MAX_ITER_REACHED\<close> exactly when some pass
  that it reaches returns with it.
\<close>

lemma main_loop_status:
  assumes "X \<noteq> PIQP_MAX_ITER_REACHED"
  shows "status (main_loop env se st) = X \<longleftrightarrow>
     (\<exists>st'. loop_reaches env se st st' \<and> iter st' < max_iter se \<and>
         pass_status env se st' = Some X)"
proof (induction env se st rule: main_loop.induct)
  case (1 env se st)
  show ?case
  proof (cases "iter st < max_iter se")
    case False
    have "\<not> (\<exists>st'. loop_reaches env se st st' \<and> iter st' < max_iter se \<and>
         pass_status env se st' = Some X)"
      using False by (subst loop_reaches_cases) auto
    then show ?thesis using False assms by (subst main_loop.simps) simp
  next
    case True
    show ?thesis
    proof (cases "outer_iteration env se st")
      case (Return s0)
      have "(\<exists>st'. loop_reaches env se st st' \<and> iter st' < max_iter se \<and>
         pass_status env se st' = Some X) \<longleftrightarrow> status s0 = X"
        using True Return by (subst loop_reaches_cases) (auto simp: pass_status_def)
      then show ?thesis using True Return by (subst main_loop.simps) simp
    next
      case (Continue st1)
      have ih: "status (main_loop env se st1) = X \<longleftrightarrow>
         (\<exists>st'. loop_reaches env se st1 st' \<and> iter st' < max_iter se \<and>
             pass_status env se st' = Some X)"
        using "1.IH"[OF True Continue] .
      have "(\<exists>st'. loop_reaches env se st st' \<and> iter st' < max_iter se \<and>
         pass_status env se st' = Some X) \<longleftrightarrow>
         (\<exists>st'. loop_reaches env se st1 st' \<and> iter st' < max_iter se \<and>
             pass_status env se st' = Some X)"
        using True Continue by (subst loop_reaches_cases) (auto simp: pass_status_def)
      then show ?thesis using True Continue ih by (subst main_loop.simps) simp
    qed
  qed
qed


lemma initial_factorize_failed_status:
  "\<not> fst (initial_factorize env se st) \<Longrightarrow> status (snd (initial_factorize env se st)) = PIQP_NUMERICS"
proof (induction env se st rule: initial_factorize.induct)
  case (1 env se st)
  let ?r = "kkt_factorize env (m_data st) (m_kkt st)"
  let ?st1 = "st\<lparr>m_kkt := snd ?r\<rparr>"
  let ?st2 = "?st1\<lparr>delta := delta ?st1 * 100, rho := rho ?st1 * 100,
                  factor_retires := factor_retires ?st1 + 1,
                  reg_limit := min (10 * reg_limit ?st1) (feas_tol_abs se)\<rparr>"
  show ?case
  proof (cases "fst ?r")
    case True
    then have "fst (initial_factorize env se st)"
      by (subst initial_factorize.simps) (simp add: Let_def)
    with "1.prems" show ?thesis by simp
  next
    case False
    show ?thesis
    proof (cases "factor_retires ?st1 < max_factor_retires se")
      case retry: True
      have e: "initial_factorize env se st = initial_factorize env se ?st2"
        using False retry by (subst initial_factorize.simps) (simp add: Let_def)
      have "\<not> fst (initial_factorize env se ?st2)" using "1.prems" e by simp
      then have "status (snd (initial_factorize env se ?st2)) = PIQP_NUMERICS"
        using "1.IH"[OF refl refl False retry] by simp
      then show ?thesis using e by simp
    next
      case stop: False
      have "initial_factorize env se st = (False, ?st1\<lparr>status := PIQP_NUMERICS\<rparr>)"
        using False stop by (subst initial_factorize.simps) (simp add: Let_def)
      then show ?thesis by simp
    qed
  qed
qed

lemma solve_impl_in_loop:
  "enters_loop env se st \<Longrightarrow> solve_impl env se st = main_loop env se (loop_entry env se st)"
  by (simp add: enters_loop_def solve_impl_def loop_entry_def Let_def)

lemma solve_impl_outside_loop:
  "\<not> enters_loop env se st \<Longrightarrow>
   status (solve_impl env se st) \<in> {PIQP_UNSOLVED, PIQP_INVALID_SETTINGS, PIQP_NUMERICS}"
  by (auto simp: enters_loop_def solve_impl_def Let_def initial_factorize_failed_status)

text \<open>
  Claim C1.  A solve returns \<open>PIQP_SOLVED\<close> exactly when it enters the outer loop and, at the
  convergence test of some pass, \<open>primal_inf\<close> (the largest unscaled infinity norm of
  \<open>r_y_nr\<close>, \<open>r_z_nr\<close> and the heads of \<open>r_z_lb_nr\<close>, \<open>r_z_ub_nr\<close>), \<open>dual_inf\<close> (the unscaled
  infinity norm of \<open>r_x_nr\<close>) and \<open>mu\<close> are below their tolerances; a pass returns with this
  status exactly when its test holds.
\<close>

theorem solved_iff_converged:
  "(status (solve_impl env se st) = PIQP_SOLVED \<longleftrightarrow>
      enters_loop env se st \<and>
      (\<exists>st'. loop_reaches env se (loop_entry env se st) st' \<and> iter st' < max_iter se \<and>
             converged_spec env se (residual_state env st'))) \<and>
   (pass_status env se st = Some PIQP_SOLVED \<longleftrightarrow> converged_spec env se (residual_state env st))"
proof (cases "enters_loop env se st")
  case True
  then show ?thesis
    by (simp add: solve_impl_in_loop main_loop_status pass_status_return)
next
  case False
  then show ?thesis
    using solve_impl_outside_loop[OF False] by (auto simp: pass_status_return)
qed

theorem solved_iff_converged_witness:
  "(let se = demo_settings\<lparr>feas_tol_abs := 1000, dual_tol := 1000\<rparr>
    in enters_loop demo_env se (demo_state 0) \<and>
       iter (loop_entry demo_env se (demo_state 0)) < max_iter se \<and>
       converged_spec demo_env se (residual_state demo_env (loop_entry demo_env se (demo_state 0))) \<and>
       status (solve_impl demo_env se (demo_state 0)) = PIQP_SOLVED)"
proof -
  let ?se = "demo_settings\<lparr>feas_tol_abs := 1000, dual_tol := 1000\<rparr>"
  let ?st = "loop_entry demo_env ?se (demo_state 0)"
  have e: "enters_loop demo_env ?se (demo_state 0)" by code_simp
  have i: "iter ?st < max_iter ?se" by code_simp
  have "converged ?se (loop_top demo_env ?st)" by code_simp
  then have c: "converged_spec demo_env ?se (residual_state demo_env ?st)"
    by (simp add: converged_loop_top)
  have "loop_reaches demo_env ?se ?st ?st" by (rule loop_reaches.here)
  with e i c have "status (solve_impl demo_env ?se (demo_state 0)) = PIQP_SOLVED"
    using solved_iff_converged[of demo_env ?se "demo_state 0"] by blast
  with e i c show ?thesis by (simp add: Let_def)
qed




end
